theory Spec2Isabelle
  imports Complex_Main "HOL-Library.Code_Target_Nat"
begin

section \<open>String primitives of the host language\<close>

text \<open>
  A string of the host language is a sequence of UTF-16 code units, each a number below
  65536. \<open>str\<close> gives the string that an ASCII literal of the source denotes, and \<open>ch\<close>
  the code unit of one ASCII character.
\<close>

type_synonym jstring = "nat list"

definition ch :: "char \<Rightarrow> nat" where
  "ch c = of_char c"

definition str :: "string \<Rightarrow> jstring" where
  "str s = map ch s"

text \<open>
  The white space that \<open>trim()\<close> strips and that the regular expression class \<open>\s\<close>
  matches: tab, line feed, vertical tab, form feed, carriage return, space, no-break
  space, the Ogham space mark, the spaces from U+2000 to U+200A, the line and paragraph
  separators, the narrow no-break space, the medium mathematical space, the ideographic
  space and the byte order mark.
\<close>

definition is_space :: "nat \<Rightarrow> bool" where
  "is_space c \<longleftrightarrow>
     c \<in> {0x0009, 0x000A, 0x000B, 0x000C, 0x000D, 0x0020, 0x00A0, 0x1680, 0x2028, 0x2029,
          0x202F, 0x205F, 0x3000, 0xFEFF} \<or>
     0x2000 \<le> c \<and> c \<le> 0x200A"

text \<open>\<open>s.trim()\<close>: white space removed at both ends.\<close>

definition trim :: "jstring \<Rightarrow> jstring" where
  "trim s = rev (dropWhile is_space (rev (dropWhile is_space s)))"

text \<open>\<open>s.split(c)\<close> for a one-character separator: never the empty array.\<close>

fun split_on :: "nat \<Rightarrow> jstring \<Rightarrow> jstring list" where
  "split_on c [] = [[]]"
| "split_on c (x # xs) =
     (if x = c then [] # split_on c xs
      else (case split_on c xs of [] \<Rightarrow> [[x]] | w # ws \<Rightarrow> (x # w) # ws))"

text \<open>
  \<open>s.split(/\s+/)\<close>: the separator is a maximal run of white space; the pieces between
  the runs are returned, the empty piece before a leading run and after a trailing run
  included.
\<close>

function split_ws :: "jstring \<Rightarrow> jstring list" where
  "split_ws [] = [[]]"
| "split_ws (x # xs) =
     (if is_space x then [] # split_ws (dropWhile is_space xs)
      else (case split_ws xs of [] \<Rightarrow> [[x]] | w # ws \<Rightarrow> (x # w) # ws))"
  by pat_completeness auto
termination
  by (relation "measure length") (auto simp: less_Suc_eq_le length_dropWhile_le)

text \<open>\<open>arr.pop()\<close> read as a value: the last element, \<open>undefined\<close> on the empty array.\<close>

definition pop :: "'a list \<Rightarrow> 'a option" where
  "pop xs = (if xs = [] then None else Some (last xs))"

text \<open>
  \<open>s.toLowerCase()\<close>. The letters A to Z are lowered, and so are the two characters
  outside ASCII whose lower case has an ASCII letter in it: the capital I with a dot
  above (to \<open>i\<close> and a combining dot) and the Kelvin sign (to \<open>k\<close>). Every other
  character outside ASCII is left as it is: its lower case is not empty and has no ASCII
  character in it, and the results are only ever compared with the ASCII constants
  \<open>pdf\<close> and \<open>docx\<close>, so the comparisons come out as in the host language.
\<close>

definition lower_unit :: "nat \<Rightarrow> jstring" where
  "lower_unit c =
     (if 0x41 \<le> c \<and> c \<le> 0x5A then [c + 0x20]
      else if c = 0x0130 then [0x69, 0x0307]
      else if c = 0x212A then [0x6B]
      else [c])"

definition toLowerCase :: "jstring \<Rightarrow> jstring" where
  "toLowerCase s = concat (map lower_unit s)"

text \<open>\<open>s.includes(t)\<close>: \<open>t\<close> occurs in \<open>s\<close> as a contiguous piece.\<close>

fun includes_str :: "jstring \<Rightarrow> jstring \<Rightarrow> bool" where
  "includes_str [] t \<longleftrightarrow> t = []"
| "includes_str (c # cs) t \<longleftrightarrow> take (length t) (c # cs) = t \<or> includes_str cs t"

text \<open>\<open>arr.join(sep)\<close>.\<close>

fun join :: "jstring \<Rightarrow> jstring list \<Rightarrow> jstring" where
  "join sep [] = []"
| "join sep [x] = x"
| "join sep (x # y # ys) = x @ sep @ join sep (y # ys)"

section \<open>Data model (types.ts)\<close>

datatype ReviewCategory = UNDERGRADUATE | JOURNAL

text \<open>The string values of the enum, as they appear in a template literal.\<close>

fun category_string :: "ReviewCategory \<Rightarrow> jstring" where
  "category_string UNDERGRADUATE = str ''Undergraduate Essay''"
| "category_string JOURNAL = str ''Journal Article''"

datatype CritiqueLevel = Supportive | Standard | Ruthless

fun level_string :: "CritiqueLevel \<Rightarrow> jstring" where
  "level_string Supportive = str ''Supportive''"
| "level_string Standard = str ''Standard''"
| "level_string Ruthless = str ''Ruthless''"

text \<open>
  A value produced by \<open>JSON.parse\<close>. An object keeps its members in insertion order.
  \<open>JNull\<close> also stands for \<open>null\<close> in a field of type \<open>ReviewFeedback | null\<close>: the
  parsed value is stored in that field by a cast, with no conversion.
\<close>

datatype json =
    JNull
  | JBool bool
  | JNumber rat
  | JString jstring
  | JArray "json list"
  | JObject "(jstring \<times> json) list"

record ReviewState =
  isLoading :: bool
  error :: "jstring option"
  feedback :: json

record FileData =
  fd_mimeType :: jstring
  fd_data :: "jstring option"
  fd_name :: jstring

record CustomCriterion =
  c_id :: jstring
  c_name :: jstring
  c_keywords :: jstring

definition AVAILABLE_CRITERIA :: "jstring list" where
  "AVAILABLE_CRITERIA =
     [str ''Clarity'', str ''Argument Structure'', str ''Originality'', str ''Evidence Use'',
      str ''Grammar & Style'', str ''Referencing'', str ''Critical Thinking'',
      str ''Adherence to Academic Conventions'']"

text \<open>The browser's \<open>File\<close>: the three properties that \<open>processFile\<close> reads.\<close>

record File =
  file_name :: jstring
  file_size :: nat
  file_type :: jstring

section \<open>Application state (App)\<close>

record App =
  category :: ReviewCategory
  critiqueLevel :: CritiqueLevel
  selectedCriteria :: "jstring list"
  customCriteria :: "CustomCriterion list"
  textInput :: jstring
  file' :: "FileData option"
  isDragging :: bool
  reviewState :: ReviewState

definition MAX_FILE_SIZE :: nat where
  "MAX_FILE_SIZE = 4 * 1024 * 1024"

definition MAX_WORD_COUNT :: nat where
  "MAX_WORD_COUNT = 200"

definition blank_criteria :: "CustomCriterion list" where
  "blank_criteria =
     [\<lparr>c_id = str ''1'', c_name = [], c_keywords = []\<rparr>,
      \<lparr>c_id = str ''2'', c_name = [], c_keywords = []\<rparr>]"

definition idle :: ReviewState where
  "idle = \<lparr>isLoading = False, error = None, feedback = JNull\<rparr>"

text \<open>The arguments of the \<open>useState\<close> calls.\<close>

definition initial :: App where
  "initial =
     \<lparr>category = UNDERGRADUATE, critiqueLevel = Standard, selectedCriteria = [],
      customCriteria = blank_criteria, textInput = [], file' = None,
      isDragging = False, reviewState = idle\<rparr>"

text \<open>\<open>setReviewState(prev => ({ ...prev, error: e }))\<close>.\<close>

definition set_error :: "jstring option \<Rightarrow> App \<Rightarrow> App" where
  "set_error e s = s\<lparr>reviewState := (reviewState s)\<lparr>error := e\<rparr>\<rparr>"

subsection \<open>File upload\<close>

definition size_error :: jstring where
  "size_error = str ''File size exceeds 4MB limit. Please try a smaller file.''"

definition type_error :: jstring where
  "type_error = str ''Only PDF and DOCX files are supported.''"

definition read_error :: jstring where
  "read_error = str ''Failed to read file.''"

definition pdf_mime :: jstring where
  "pdf_mime = str ''application/pdf''"

definition docx_mime :: jstring where
  "docx_mime = str ''application/vnd.openxmlformats-officedocument.wordprocessingml.document''"

text \<open>\<open>selectedFile.name.split('.').pop()?.toLowerCase()\<close>.\<close>

definition file_ext :: "File \<Rightarrow> jstring option" where
  "file_ext f = map_option toLowerCase (pop (split_on (ch CHR ''.'') (file_name f)))"

text \<open>
  What the callbacks of the \<open>FileReader\<close> have captured when \<open>readAsDataURL\<close> is
  called: the name of the file and the MIME type chosen for it.
\<close>

record pending_read =
  pr_name :: jstring
  pr_mimeType :: jstring

text \<open>
  \<open>processFile\<close> up to its return: the state it leaves, and the read it has started
  (\<open>None\<close> when it returned before \<open>reader.readAsDataURL\<close>). The local \<open>mimeType\<close>
  starts as the type reported by the browser and is overwritten, or the function returns.
\<close>

definition processFile :: "File \<Rightarrow> App \<Rightarrow> App \<times> pending_read option" where
  "processFile selectedFile s =
     (if file_size selectedFile > MAX_FILE_SIZE then (set_error (Some size_error) s, None)
      else
        let ext = file_ext selectedFile; mimeType = file_type selectedFile in
        if ext = Some (str ''pdf'') then
          (s, Some \<lparr>pr_name = file_name selectedFile, pr_mimeType = pdf_mime\<rparr>)
        else if ext = Some (str ''docx'') then
          (s, Some \<lparr>pr_name = file_name selectedFile, pr_mimeType = docx_mime\<rparr>)
        else (set_error (Some type_error) s, None))"

text \<open>\<open>arr[1]\<close>: \<open>undefined\<close> when the array has fewer than two elements.\<close>

definition second :: "'a list \<Rightarrow> 'a option" where
  "second xs = (case xs of _ # y # _ \<Rightarrow> Some y | _ \<Rightarrow> None)"

text \<open>\<open>reader.onload\<close>, run with the data URL that the reader produced.\<close>

definition reader_onload :: "pending_read \<Rightarrow> jstring \<Rightarrow> App \<Rightarrow> App" where
  "reader_onload p base64String s =
     (let base64Data = second (split_on (ch CHR '','') base64String) in
      set_error None
        (s\<lparr>file' := Some \<lparr>fd_mimeType = pr_mimeType p, fd_data = base64Data,
                             fd_name = pr_name p\<rparr>\<rparr>))"

text \<open>\<open>reader.onerror\<close>.\<close>

definition reader_onerror :: "App \<Rightarrow> App" where
  "reader_onerror s = set_error (Some read_error) s"

text \<open>
  \<open>clearFile\<close>. It also empties the file input element of the page, which is not part of
  the state.
\<close>

definition clearFile :: "App \<Rightarrow> App" where
  "clearFile s = s\<lparr>file' := None\<rparr>"

subsection \<open>Criteria\<close>

definition toggleCriterion :: "jstring \<Rightarrow> App \<Rightarrow> App" where
  "toggleCriterion criterion s =
     s\<lparr>selectedCriteria :=
         (if criterion \<in> set (selectedCriteria s)
          then filter (\<lambda>c. c \<noteq> criterion) (selectedCriteria s)
          else selectedCriteria s @ [criterion])\<rparr>"

definition allSelected :: "App \<Rightarrow> bool" where
  "allSelected s \<longleftrightarrow>
     length AVAILABLE_CRITERIA > 0 \<and>
     list_all (\<lambda>c. c \<in> set (selectedCriteria s)) AVAILABLE_CRITERIA"

definition toggleSelectAll :: "App \<Rightarrow> App" where
  "toggleSelectAll s =
     (if allSelected s then s\<lparr>selectedCriteria := []\<rparr>
      else s\<lparr>selectedCriteria := AVAILABLE_CRITERIA\<rparr>)"

definition countWords :: "jstring \<Rightarrow> nat" where
  "countWords s =
     (let trimmed = trim s in if trimmed \<noteq> [] then length (split_ws trimmed) else 0)"

datatype field = Name | Keywords

text \<open>\<open>customCriteria.find(c => c.id === id)?.keywords || ''\<close>.\<close>

definition prevValue :: "jstring \<Rightarrow> App \<Rightarrow> jstring" where
  "prevValue i s =
     (case find (\<lambda>c. c_id c = i) (customCriteria s) of
        None \<Rightarrow> []
      | Some c \<Rightarrow> if c_keywords c \<noteq> [] then c_keywords c else [])"

text \<open>\<open>{ ...c, [field]: value }\<close>.\<close>

fun set_field :: "field \<Rightarrow> jstring \<Rightarrow> CustomCriterion \<Rightarrow> CustomCriterion" where
  "set_field Name v c = c\<lparr>c_name := v\<rparr>"
| "set_field Keywords v c = c\<lparr>c_keywords := v\<rparr>"

definition handleCustomCriterionChange :: "jstring \<Rightarrow> field \<Rightarrow> jstring \<Rightarrow> App \<Rightarrow> App" where
  "handleCustomCriterionChange i fld v s =
     (if fld = Keywords \<and>
         (let currentWords = countWords v; prevWords = countWords (prevValue i s)
          in currentWords > MAX_WORD_COUNT \<and> currentWords > prevWords)
      then s
      else s\<lparr>customCriteria :=
               map (\<lambda>c. if c_id c = i then set_field fld v c else c) (customCriteria s)\<rparr>)"

subsection \<open>Start new review\<close>

definition reset :: "App \<Rightarrow> App" where
  "reset s =
     (clearFile (s\<lparr>reviewState := idle, textInput := []\<rparr>))
       \<lparr>selectedCriteria := [], critiqueLevel := Standard, customCriteria := blank_criteria\<rparr>"

section \<open>The review service (geminiService.ts)\<close>

subsection \<open>The response schema\<close>

text \<open>
  A \<open>Schema\<close> of the generative-text SDK, one constructor for each \<open>Type\<close>. Every
  keyword of the interface that the source sets is an argument: \<open>properties\<close> and
  \<open>required\<close> of an object, \<open>items\<close> of an array, \<open>enum\<close> and \<open>description\<close> of a
  string. The interface also has \<open>minItems\<close> and \<open>maxItems\<close> for an array; they are the
  two optional arguments of \<open>SArray\<close>, \<open>None\<close> where the source does not set them.
\<close>

datatype schema =
    SObject "(jstring \<times> schema) list" "jstring list"
  | SArray schema "nat option" "nat option"
  | SString "jstring list option" "jstring option"
  | SInteger
  | SBoolean

definition visualBar_description :: jstring where
  "visualBar_description =
     str ''Visual representation of score, e.g. '' @
     [0x25A0, 0x25A0, 0x25A0, 0x25A0, 0x25A1]"

definition responseSchema :: schema where
  "responseSchema =
     SObject
       [(str ''summary'', SString None None),
        (str ''overallScore'', SInteger),
        (str ''reviews'',
         SArray
           (SObject
              [(str ''criterion'', SString None None),
               (str ''score'', SString (Some [str ''Excellent'', str ''Good'', str ''Fair'', str ''Poor'']) None),
               (str ''visualBar'', SString None (Some visualBar_description)),
               (str ''feedbackPoints'',
                SArray
                  (SObject
                     [(str ''point'', SString None None),
                      (str ''highlight'', SString None None),
                      (str ''general_feedback'', SBoolean)]
                     [str ''point''])
                  None None)]
              [str ''criterion'', str ''score'', str ''visualBar'', str ''feedbackPoints''])
           None None)]
       [str ''summary'', str ''overallScore'', str ''reviews'']"

subsection \<open>The instruction\<close>

definition nonblank :: "CustomCriterion \<Rightarrow> bool" where
  "nonblank c \<longleftrightarrow> trim (c_name c) \<noteq> []"

text \<open>\<open>`- ${c.name}${c.keywords ? ` (Focus on: ${c.keywords})` : ''}`\<close>.\<close>

definition custom_line :: "CustomCriterion \<Rightarrow> jstring" where
  "custom_line c =
     str ''- '' @ c_name c @
     (if c_keywords c \<noteq> [] then str '' (Focus on: '' @ c_keywords c @ str '')'' else [])"

definition formattedCustomCriteria :: "CustomCriterion list \<Rightarrow> jstring" where
  "formattedCustomCriteria custom =
     join (str ''\<newline>'') (map custom_line (filter nonblank custom))"

definition allCriteriaNames :: "jstring list \<Rightarrow> CustomCriterion list \<Rightarrow> jstring list" where
  "allCriteriaNames selected custom =
     selected @ map c_name (filter nonblank custom)"

definition persona_undergraduate_supportive :: jstring where
  \<open>persona_undergraduate_supportive =
     str
      (''\<newline>'' @
       ''      PATH A (UNDERGRADUATE) - LEVEL 1: THE MENTOR (Supportive)\<newline>'' @
       ''      - Persona: A patient Teaching Assistant.\<newline>'' @
       ''      - Action: Point out errors gently (per Rubric) and immediately '' @
       ''offer a simple, actionable suggestion for repair. Cite location.\<newline>'' @
       ''      - Tone: Encouraging, warm, and focused on learning.\<newline>'' @
       ''      '')\<close>

definition persona_undergraduate_standard :: jstring where
  \<open>persona_undergraduate_standard =
     str
      (''\<newline>'' @
       ''      PATH A (UNDERGRADUATE) - LEVEL 2: THE GRADER (Standard)\<newline>'' @
       ''      - Persona: A standard Professor grading a paper based on a '' @
       ''fixed rubric.\<newline>'' @
       ''      - Action: Identify and state errors objectively. Differentiate '' @
       ''between minor and major issues within the Rubric. Cite location.\<newline>'' @
       ''      - Tone: Professional, objective, and grade-focused.\<newline>'' @
       ''      '')\<close>

definition persona_undergraduate_ruthless :: jstring where
  \<open>persona_undergraduate_ruthless =
     str
      (''\<newline>'' @
       ''      PATH A (UNDERGRADUATE) - LEVEL 3: THE STRICT EXAMINER '' @
       ''(Ruthless)\<newline>'' @
       ''      - Persona: A harsh Professor grading a final, high-stakes '' @
       ''thesis.\<newline>'' @
       ''      - Action: Penalize every deviation from the standard in the '' @
       ''Rubric. Use precise, critical language. Cite location for every '' @
       ''single error or weakness found.\<newline>'' @
       ''      - Tone: Direct, dry, and unsparingly critical.\<newline>'' @
       ''      '')\<close>

definition persona_journal_supportive :: jstring where
  \<open>persona_journal_supportive =
     str
      (''\<newline>'' @
       ''      PATH B (JOURNAL ARTICLE) - LEVEL 1: THE CONSTRUCTIVE PEER '' @
       ''(Supportive)\<newline>'' @
       ''      - Persona: A friendly colleague doing a pre-submission review.\<newline>'' @
       ''      - Action: Frame critiques (per Rubric) as "opportunities to '' @
       ''strengthen the contribution." Focus on clarity and selling the idea. '' @
       ''Cite location.\<newline>'' @
       ''      - Tone: Collaborative and helpful.\<newline>'' @
       ''      '')\<close>

definition persona_journal_standard :: jstring where
  \<open>persona_journal_standard =
     str
      (''\<newline>'' @
       ''      PATH B (JOURNAL ARTICLE) - LEVEL 2: THE PEER REVIEWER '' @
       ''(Standard)\<newline>'' @
       ''      - Persona: An anonymous reviewer for a standard, Q1/Q2 journal.\<newline>'' @
       ''      - Action: Evaluate if the paper meets the technical '' @
       ''requirements of the Rubric (e.g., soundness of methodology, '' @
       ''statistical relevance). Cite location.\<newline>'' @
       ''      - Tone: Formal, rigorous, and demanding of standard quality.\<newline>'' @
       ''      '')\<close>

definition persona_journal_ruthless :: jstring where
  \<open>persona_journal_ruthless =
     str
      (''\<newline>'' @
       ''      PATH B (JOURNAL ARTICLE) - LEVEL 3: THE GATEKEEPER (Ruthless)\<newline>'' @
       ''      - Persona: "Reviewer #2" for a high-impact journal.\<newline>'' @
       ''      - Action: Assume the paper should be rejected unless proven '' @
       ''otherwise. Scrutinize the Rubric for fatal flaws, lack of novelty, or '' @
       ''unsubstantiated claims. Every negative finding must be supported by '' @
       ''an exact quote and location tag.\<newline>'' @
       ''      - Tone: Skeptical, abrasive, and focused on rejection.\<newline>'' @
       ''      '')\<close>

fun personaInstruction :: "ReviewCategory \<Rightarrow> CritiqueLevel \<Rightarrow> jstring" where
  "personaInstruction UNDERGRADUATE Supportive = persona_undergraduate_supportive"
| "personaInstruction UNDERGRADUATE Standard = persona_undergraduate_standard"
| "personaInstruction UNDERGRADUATE Ruthless = persona_undergraduate_ruthless"
| "personaInstruction JOURNAL Supportive = persona_journal_supportive"
| "personaInstruction JOURNAL Standard = persona_journal_standard"
| "personaInstruction JOURNAL Ruthless = persona_journal_ruthless"

text \<open>
  \<open>JSON.stringify\<close> of an array of strings: each string quoted, the elements separated
  by commas. In a quoted string the quotation mark, the backslash and the control
  characters are escaped, and so is a surrogate that is not part of a pair.
\<close>

definition hex_digit :: "nat \<Rightarrow> nat" where
  "hex_digit n = str ''0123456789abcdef'' ! (n mod 16)"

definition unicode_escape :: "nat \<Rightarrow> jstring" where
  "unicode_escape c =
     [0x5C, ch CHR ''u'', hex_digit (c div 4096), hex_digit (c div 256), hex_digit (c div 16),
      hex_digit c]"

definition quote_unit :: "nat \<Rightarrow> jstring" where
  "quote_unit c =
     (if c = 0x22 then [0x5C, 0x22]
      else if c = 0x5C then [0x5C, 0x5C]
      else if c = 0x08 then [0x5C, ch CHR ''b'']
      else if c = 0x09 then [0x5C, ch CHR ''t'']
      else if c = 0x0A then [0x5C, ch CHR ''n'']
      else if c = 0x0C then [0x5C, ch CHR ''f'']
      else if c = 0x0D then [0x5C, ch CHR ''r'']
      else if c < 0x20 \<or> 0xD800 \<le> c \<and> c \<le> 0xDFFF then unicode_escape c
      else [c])"

fun quote_units :: "jstring \<Rightarrow> jstring" where
  "quote_units [] = []"
| "quote_units [c] = quote_unit c"
| "quote_units (c # d # ds) =
     (if 0xD800 \<le> c \<and> c \<le> 0xDBFF \<and> 0xDC00 \<le> d \<and> d \<le> 0xDFFF
      then c # d # quote_units ds
      else quote_unit c @ quote_units (d # ds))"

definition quote :: "jstring \<Rightarrow> jstring" where
  "quote s = [0x22] @ quote_units s @ [0x22]"

definition stringify_names :: "jstring list \<Rightarrow> jstring" where
  "stringify_names names = str ''['' @ join (str '','') (map quote names) @ str '']''"

definition instruction_text1 :: jstring where
  \<open>instruction_text1 =
     str
      (''\<newline>'' @
       ''  You are an advanced academic reviewer who generates precise, '' @
       ''evidence-based critique.\<newline>'' @
       ''  \<newline>'' @
       ''  CURRENT CONFIGURATION:\<newline>'' @
       ''  1. Doc_Type: "'')\<close>

definition instruction_text2 :: jstring where
  \<open>instruction_text2 =
     str
      (''"\<newline>'' @
       ''  2. Critique_Level: "'')\<close>

definition instruction_text3 :: jstring where
  \<open>instruction_text3 =
     str
      (''"\<newline>'' @
       ''  3. Selected_Rubric: '')\<close>

definition instruction_text4 :: jstring where
  \<open>instruction_text4 =
     str
      (''\<newline>'' @
       ''  '')\<close>

definition instruction_text5 :: jstring where
  \<open>instruction_text5 =
     str
      (''\<newline>'' @
       ''\<newline>'' @
       ''  '')\<close>

definition instruction_text6 :: jstring where
  \<open>instruction_text6 =
     str
      (''\<newline>'' @
       ''\<newline>'' @
       ''  CORE CONSTRAINT: EVIDENCE & CITATION MANDATE (NON-NEGOTIABLE)\<newline>'' @
       ''  1. MANDATORY CITATION: \<newline>'' @
       ''     - Specific Issues: Every isolated error (e.g., incorrect '' @
       ''citation, grammatical mistake) must be followed by a citation tag: '' @
       ''[Page X] or [Section: Name] within the feedback text.\<newline>'' @
       ''     - General Issues: For comments on overall structure/tone, cite '' @
       ''the most representative Page/Section.\<newline>'' @
       ''  2. SCOPE RESTRICTION:\<newline>'' @
       ''     - You must ONLY review the specific items listed in the '' @
       ''Selected_Rubric. Ignore all other aspects.\<newline>'' @
       ''     - Exception: If a flaw is fatal (makes paper unreadable/false), '' @
       ''flag it separately.\<newline>'' @
       ''\<newline>'' @
       ''  OUTPUT FORMAT INSTRUCTIONS:\<newline>'' @
       ''  You must output a valid JSON object matching the schema below.\<newline>'' @
       ''  \<newline>'' @
       ''  1. "summary": Concise summary of content, strengths, and areas to '' @
       ''improve (based on Persona tone).\<newline>'' @
       ''  2. "overallScore": Integer 0-100 reflecting the quality based on '' @
       ''the Persona's strictness.\<newline>'' @
       ''  3. "reviews": Array for criteria: '')\<close>

definition instruction_text7 :: jstring where
  \<open>instruction_text7 =
     str
      (''.\<newline>'' @
       ''     - "score": "Excellent", "Good", "Fair", or "Poor".\<newline>'' @
       ''     - "visualBar": 5-char string "'') @
     [0x25A0] @
     str ''" and "'' @
     [0x25A1] @
     str ''" (e.g. "'' @
     [0x25A0, 0x25A0, 0x25A0, 0x25A1, 0x25A1] @
     str
      (''").\<newline>'' @
       ''     - "feedbackPoints": Exactly 3 distinct points per criterion.\<newline>'' @
       ''        - "point": The critique text. MUST include the citation tag '' @
       ''[Page X] if referring to specific errors.\<newline>'' @
       ''        - "highlight": The specific text snippet from the document '' @
       ''that justifies the critique (for the Evidence Mandate).\<newline>'' @
       ''        - "general_feedback": true if no specific snippet exists (but '' @
       ''still cite section in "point").\<newline>'' @
       ''  '')\<close>

definition systemInstruction ::
  "ReviewCategory \<Rightarrow> CritiqueLevel \<Rightarrow> jstring list \<Rightarrow> CustomCriterion list \<Rightarrow> jstring" where
  "systemInstruction cat level selected custom =
     instruction_text1 @ category_string cat @
     instruction_text2 @ level_string level @
     instruction_text3 @ stringify_names (allCriteriaNames selected custom) @
     instruction_text4 @
     (if formattedCustomCriteria custom \<noteq> []
      then str ''Custom Rubric Items:\<newline>'' @ formattedCustomCriteria custom
      else []) @
     instruction_text5 @ personaInstruction cat level @
     instruction_text6 @ join (str '', '') (allCriteriaNames selected custom) @
     instruction_text7"

subsection \<open>The request\<close>

datatype part = InlineData jstring "jstring option" | TextPart jstring

record request =
  rq_model :: jstring
  rq_systemInstruction :: jstring
  rq_responseMimeType :: jstring
  rq_responseSchema :: schema
  rq_temperature :: rat
  rq_role :: jstring
  rq_parts :: "part list"

text \<open>
  What one call of \<open>ai.models.generateContent\<close> does: it throws an error, whose
  \<open>message\<close> may be missing, or it returns a response, whose \<open>text\<close> may be missing.
  In a condition a missing string and the empty string are both false.
\<close>

datatype api_outcome = Rejects "jstring option" | Resolves "jstring option"

definition parts_of :: "jstring \<Rightarrow> FileData option \<Rightarrow> part list" where
  "parts_of textContext fileData =
     (case fileData of
        None \<Rightarrow> []
      | Some fd \<Rightarrow> [InlineData (fd_mimeType fd) (fd_data fd)]) @
     (if textContext \<noteq> [] then [TextPart textContext] else [])"

definition no_parts_error :: jstring where
  "no_parts_error = str ''Please provide text or upload a document to review.''"

definition no_response_error :: jstring where
  "no_response_error = str ''No response generated from the model.''"

definition unexpected_error :: jstring where
  "unexpected_error = str ''An unexpected error occurred during analysis.''"

definition connection_error :: jstring where
  "connection_error =
     str ''Connection error. The file may be too large or the format is not supported. '' @
     str ''Please try a smaller PDF (under 4MB) or plain text file.''"

text \<open>
  The \<open>catch\<close> block of \<open>analyzeDocument\<close>, given the \<open>message\<close> of the error it caught:
  the message of the error it throws.
\<close>

definition catch_message :: "jstring option \<Rightarrow> jstring" where
  "catch_message message =
     (case message of
        None \<Rightarrow> unexpected_error
      | Some m \<Rightarrow>
          if m \<noteq> [] \<and> (includes_str m (str ''Rpc failed'') \<or> includes_str m (str ''xhr error''))
          then connection_error
          else if m \<noteq> [] then m
          else unexpected_error)"

text \<open>The argument of \<open>ai.models.generateContent\<close>.\<close>

definition make_request ::
  "ReviewCategory \<Rightarrow> CritiqueLevel \<Rightarrow> jstring list \<Rightarrow> CustomCriterion list \<Rightarrow>
   part list \<Rightarrow> request" where
  "make_request cat level selected custom parts =
     \<lparr>rq_model = str ''gemini-2.5-flash'',
      rq_systemInstruction = systemInstruction cat level selected custom,
      rq_responseMimeType = str ''application/json'',
      rq_responseSchema = responseSchema,
      rq_temperature = 3 / 10,
      rq_role = str ''user'',
      rq_parts = parts\<rparr>"

text \<open>
  \<open>analyzeDocument\<close>, run to completion against one behaviour \<open>api\<close> of the external
  service and one behaviour \<open>parse\<close> of \<open>JSON.parse\<close> (\<open>Inl\<close> the message of the
  \<open>SyntaxError\<close>). The result is \<open>Inl\<close> the message of the error thrown or \<open>Inr\<close> the
  value returned, with the requests sent to the service, in order.
\<close>

definition analyzeDocument ::
  "(request \<Rightarrow> api_outcome) \<Rightarrow> (jstring \<Rightarrow> jstring + json) \<Rightarrow>
   ReviewCategory \<Rightarrow> jstring list \<Rightarrow> CustomCriterion list \<Rightarrow> CritiqueLevel \<Rightarrow>
   jstring \<Rightarrow> FileData option \<Rightarrow> (jstring + json) \<times> request list" where
  "analyzeDocument api parse cat selected custom level textContext fileData =
     (let parts = parts_of textContext fileData in
      if length parts = 0 then (Inl no_parts_error, [])
      else
        let req = make_request cat level selected custom parts
        in case api req of
             Rejects message \<Rightarrow> (Inl (catch_message message), [req])
           | Resolves None \<Rightarrow> (Inl (catch_message (Some no_response_error)), [req])
           | Resolves (Some jsonText) \<Rightarrow>
               if jsonText = [] then (Inl (catch_message (Some no_response_error)), [req])
               else (case parse jsonText of
                       Inl message \<Rightarrow> (Inl (catch_message (Some message)), [req])
                     | Inr v \<Rightarrow> (Inr v, [req])))"

subsection \<open>Submission (App)\<close>

definition content_error :: jstring where
  "content_error = str ''Please upload a document or paste text to review.''"

definition criteria_error :: jstring where
  "criteria_error = str ''Please select at least one evaluation criterion or add a custom one.''"

definition handleReview ::
  "(request \<Rightarrow> api_outcome) \<Rightarrow> (jstring \<Rightarrow> jstring + json) \<Rightarrow> App \<Rightarrow> App \<times> request list" where
  "handleReview api parse s =
     (if textInput s = [] \<and> file' s = None then (set_error (Some content_error) s, [])
      else
        let activeCustomCriteria = filter nonblank (customCriteria s) in
        if length (selectedCriteria s) = 0 \<and> length activeCustomCriteria = 0
        then (set_error (Some criteria_error) s, [])
        else
          case analyzeDocument api parse (category s) (selectedCriteria s)
                 activeCustomCriteria (critiqueLevel s) (textInput s) (file' s) of
            (Inr fb, calls) \<Rightarrow>
              (s\<lparr>reviewState := \<lparr>isLoading = False, error = None, feedback = fb\<rparr>\<rparr>, calls)
          | (Inl message, calls) \<Rightarrow>
              (s\<lparr>reviewState :=
                   \<lparr>isLoading = False,
                    error = Some (if message \<noteq> [] then message else unexpected_error),
                    feedback = JNull\<rparr>\<rparr>,
               calls))"

text \<open>
  Between the dispatch and the completion of the request the state is the one that
  \<open>handleReview\<close> sets before it awaits.
\<close>

text \<open>The request that \<open>handleReview\<close> has \<open>analyzeDocument\<close> send for a state.\<close>

definition review_request :: "App \<Rightarrow> request" where
  "review_request s =
     make_request (category s) (critiqueLevel s) (selectedCriteria s)
       (filter nonblank (customCriteria s)) (parts_of (textInput s) (file' s))"

text \<open>The two checks that \<open>handleReview\<close> makes before anything else.\<close>

definition has_content :: "App \<Rightarrow> bool" where
  "has_content s \<longleftrightarrow> textInput s \<noteq> [] \<or> file' s \<noteq> None"

definition has_criteria :: "App \<Rightarrow> bool" where
  "has_criteria s \<longleftrightarrow> selectedCriteria s \<noteq> [] \<or> (\<exists>c \<in> set (customCriteria s). nonblank c)"

definition loading :: ReviewState where
  "loading = \<lparr>isLoading = True, error = None, feedback = JNull\<rparr>"

subsection \<open>The states of a session\<close>

text \<open>
  The states that the handlers of \<open>App\<close> can produce from the initial one, each handler
  run to its end before the next starts. The buttons of the catalogue toggle catalogue
  entries only, and the inputs of a custom criterion pass the \<open>id\<close> of an entry that is
  shown. The callbacks of a file reader may run in any later state.
\<close>

inductive reachable :: "App \<Rightarrow> bool" where
  r_initial: "reachable initial"
| r_setCategory: "reachable s \<Longrightarrow> reachable (s\<lparr>category := c\<rparr>)"
| r_setCritiqueLevel: "reachable s \<Longrightarrow> reachable (s\<lparr>critiqueLevel := l\<rparr>)"
| r_toggleCriterion:
    "reachable s \<Longrightarrow> c \<in> set AVAILABLE_CRITERIA \<Longrightarrow> reachable (toggleCriterion c s)"
| r_toggleSelectAll: "reachable s \<Longrightarrow> reachable (toggleSelectAll s)"
| r_customCriterionChange:
    "reachable s \<Longrightarrow> c \<in> set (customCriteria s) \<Longrightarrow>
     reachable (handleCustomCriterionChange (c_id c) fld v s)"
| r_setTextInput: "reachable s \<Longrightarrow> reachable (s\<lparr>textInput := t\<rparr>)"
| r_setIsDragging: "reachable s \<Longrightarrow> reachable (s\<lparr>isDragging := b\<rparr>)"
| r_processFile: "reachable s \<Longrightarrow> reachable (fst (processFile f s))"
| r_reader_onload: "reachable s \<Longrightarrow> reachable (reader_onload p url s)"
| r_reader_onerror: "reachable s \<Longrightarrow> reachable (reader_onerror s)"
| r_clearFile: "reachable s \<Longrightarrow> reachable (clearFile s)"
| r_dispatch:
    "reachable s \<Longrightarrow> snd (handleReview api parse s) \<noteq> [] \<Longrightarrow>
     reachable (s\<lparr>reviewState := loading\<rparr>)"
| r_handleReview: "reachable s \<Longrightarrow> reachable (fst (handleReview api parse s))"
| r_reset: "reachable s \<Longrightarrow> reachable (reset s)"

text \<open>The keywords of the first entry with the given \<open>id\<close>, as the word counter shows them.\<close>

definition keywords_of :: "jstring \<Rightarrow> App \<Rightarrow> jstring" where
  "keywords_of i s =
     (case find (\<lambda>c. c_id c = i) (customCriteria s) of
        None \<Rightarrow> []
      | Some c \<Rightarrow> c_keywords c)"

section \<open>The response contract\<close>

subsection \<open>Typed responses (types.ts)\<close>

datatype Score = Excellent | Good | Fair | Poor

fun score_string :: "Score \<Rightarrow> jstring" where
  "score_string Excellent = str ''Excellent''"
| "score_string Good = str ''Good''"
| "score_string Fair = str ''Fair''"
| "score_string Poor = str ''Poor''"

record FeedbackPoint =
  fp_point :: jstring
  fp_highlight :: "jstring option"
  fp_general_feedback :: "bool option"

record CriterionResult =
  cr_criterion :: jstring
  cr_score :: Score
  cr_visualBar :: jstring
  cr_feedbackPoints :: "FeedbackPoint list"

record ReviewFeedback =
  rf_summary :: jstring
  rf_overallScore :: int
  rf_reviews :: "CriterionResult list"

text \<open>A typed response as a JSON value; an optional property that is absent is left out.\<close>

definition json_of_point :: "FeedbackPoint \<Rightarrow> json" where
  "json_of_point p =
     JObject
       ([(str ''point'', JString (fp_point p))] @
        (case fp_highlight p of None \<Rightarrow> [] | Some h \<Rightarrow> [(str ''highlight'', JString h)]) @
        (case fp_general_feedback p of
           None \<Rightarrow> []
         | Some b \<Rightarrow> [(str ''general_feedback'', JBool b)]))"

definition json_of_result :: "CriterionResult \<Rightarrow> json" where
  "json_of_result r =
     JObject
       [(str ''criterion'', JString (cr_criterion r)),
        (str ''score'', JString (score_string (cr_score r))),
        (str ''visualBar'', JString (cr_visualBar r)),
        (str ''feedbackPoints'', JArray (map json_of_point (cr_feedbackPoints r)))]"

definition json_of_feedback :: "ReviewFeedback \<Rightarrow> json" where
  "json_of_feedback fb =
     JObject
       [(str ''summary'', JString (rf_summary fb)),
        (str ''overallScore'', JNumber (of_int (rf_overallScore fb))),
        (str ''reviews'', JArray (map json_of_result (rf_reviews fb)))]"

subsection \<open>Validation against a schema\<close>

definition is_integer :: "rat \<Rightarrow> bool" where
  "is_integer r \<longleftrightarrow> of_int \<lfloor>r\<rfloor> = r"

text \<open>
  Modelled from the spec: the validation of a response against the schema. The
  repository sends the schema to the service and has no validator of its own; the
  keywords are read as the schema language defines them. An object must have every
  \<open>required\<close> property, and each property it has that \<open>properties\<close> lists must fit
  that property's schema; every element of an array must fit \<open>items\<close>, and the length of
  the array must lie within \<open>minItems\<close> and \<open>maxItems\<close> where they are set; a string must
  be among the values of \<open>enum\<close> where it is set.
\<close>

fun validates :: "schema \<Rightarrow> json \<Rightarrow> bool" where
  "validates (SObject props req) v =
     (case v of
        JObject fs \<Rightarrow>
          list_all (\<lambda>k. map_of fs k \<noteq> None) req \<and>
          list_all
            (\<lambda>p. case map_of fs (fst p) of None \<Rightarrow> True | Some x \<Rightarrow> validates (snd p) x)
            props
      | _ \<Rightarrow> False)"
| "validates (SArray items minItems maxItems) v =
     (case v of
        JArray xs \<Rightarrow>
          list_all (validates items) xs \<and>
          (case minItems of None \<Rightarrow> True | Some n \<Rightarrow> n \<le> length xs) \<and>
          (case maxItems of None \<Rightarrow> True | Some n \<Rightarrow> length xs \<le> n)
      | _ \<Rightarrow> False)"
| "validates (SString enum descr) v =
     (case v of
        JString x \<Rightarrow> (case enum of None \<Rightarrow> True | Some values \<Rightarrow> x \<in> set values)
      | _ \<Rightarrow> False)"
| "validates SInteger v = (case v of JNumber r \<Rightarrow> is_integer r | _ \<Rightarrow> False)"
| "validates SBoolean v = (case v of JBool b \<Rightarrow> True | _ \<Rightarrow> False)"

text \<open>The number of feedback points of each review of a parsed response.\<close>

definition points_per_review :: "json \<Rightarrow> nat list" where
  "points_per_review v =
     (case v of
        JObject fs \<Rightarrow>
          (case map_of fs (str ''reviews'') of
             Some (JArray rs) \<Rightarrow>
               map (\<lambda>r. case r of
                          JObject gs \<Rightarrow>
                            (case map_of gs (str ''feedbackPoints'') of
                               Some (JArray ps) \<Rightarrow> length ps
                             | _ \<Rightarrow> 0)
                        | _ \<Rightarrow> 0) rs
           | _ \<Rightarrow> [])
      | _ \<Rightarrow> [])"

section \<open>A model of \<open>JSON.parse\<close>\<close>

text \<open>
  \<open>analyzeDocument\<close> is stated for any behaviour of the platform's \<open>JSON.parse\<close>. To
  run it on a concrete response text, this section gives the grammar of JSON texts as a
  scanner followed by a stack automaton. A number is kept exact (the platform rounds it
  to a double), an object is the list of its members in the order of the text (a
  repeated key keeps its first position and its last value; the order in which the
  platform enumerates keys that look like integers is not modelled), and the message of
  the \<open>SyntaxError\<close> is one fixed text (the platform's wording depends on the engine).
\<close>

datatype token =
    TLBrace | TRBrace | TLBrack | TRBrack | TColon | TComma
  | TString jstring
  | TNumber rat
  | TLiteral json

definition json_ws :: "nat \<Rightarrow> bool" where
  "json_ws c \<longleftrightarrow> c \<in> {0x20, 0x09, 0x0A, 0x0D}"

definition is_digit :: "nat \<Rightarrow> bool" where
  "is_digit c \<longleftrightarrow> ch CHR ''0'' \<le> c \<and> c \<le> ch CHR ''9''"

definition is_letter :: "nat \<Rightarrow> bool" where
  "is_letter c \<longleftrightarrow> ch CHR ''a'' \<le> c \<and> c \<le> ch CHR ''z''"

definition number_char :: "nat \<Rightarrow> bool" where
  "number_char c \<longleftrightarrow> is_digit c \<or> c \<in> set (str ''.eE+-'')"

definition digit_val :: "nat \<Rightarrow> nat" where
  "digit_val c = c - ch CHR ''0''"

definition digits_val :: "jstring \<Rightarrow> nat" where
  "digits_val ds = foldl (\<lambda>a c. 10 * a + digit_val c) 0 ds"

definition hex_val :: "nat \<Rightarrow> nat option" where
  "hex_val c =
     map_of (zip (str ''0123456789abcdef'') [0 ..< 16] @ zip (str ''ABCDEF'') [10 ..< 16]) c"

definition hex_number :: "jstring \<Rightarrow> nat" where
  "hex_number ds = foldl (\<lambda>a c. 16 * a + (case hex_val c of None \<Rightarrow> 0 | Some d \<Rightarrow> d)) 0 ds"

definition unescape :: "nat \<Rightarrow> nat option" where
  "unescape c =
     map_of
       [(0x22, 0x22), (0x5C, 0x5C), (ch CHR ''/'', ch CHR ''/''),
        (ch CHR ''b'', 0x08), (ch CHR ''f'', 0x0C), (ch CHR ''n'', 0x0A),
        (ch CHR ''r'', 0x0D), (ch CHR ''t'', 0x09)] c"

definition pow10 :: "int \<Rightarrow> rat" where
  "pow10 e = (if 0 \<le> e then 10 ^ nat e else 1 / 10 ^ nat (- e))"

text \<open>An optional sign in front of the rest of a text.\<close>

definition sign_of :: "jstring \<Rightarrow> jstring \<Rightarrow> bool \<times> jstring" where
  "sign_of signs s =
     (case s of
        [] \<Rightarrow> (False, [])
      | c # r \<Rightarrow> if c \<in> set signs then (c = ch CHR ''-'', r) else (False, s))"

text \<open>
  The number that a text denotes, if it is a JSON number: an optional minus, an
  integer part with no leading zero, an optional fraction, an optional exponent.
\<close>

definition number_of :: "jstring \<Rightarrow> rat option" where
  "number_of s =
     (let (neg, s1) = sign_of (str ''-'') s;
          ip = takeWhile is_digit s1;
          r1 = dropWhile is_digit s1;
          ok_int = (case ip of [] \<Rightarrow> False | d # ds \<Rightarrow> d \<noteq> ch CHR ''0'' \<or> ds = []);
          has_frac = (case r1 of [] \<Rightarrow> False | c # _ \<Rightarrow> c = ch CHR ''.'');
          fp = (if has_frac then takeWhile is_digit (tl r1) else []);
          r2 = (if has_frac then dropWhile is_digit (tl r1) else r1);
          has_exp = (case r2 of [] \<Rightarrow> False | c # _ \<Rightarrow> c = ch CHR ''e'' \<or> c = ch CHR ''E'');
          (eneg, r3) = (if has_exp then sign_of (str ''+-'') (tl r2) else (False, r2));
          ep = (if has_exp then takeWhile is_digit r3 else []);
          r4 = (if has_exp then dropWhile is_digit r3 else r3);
          m = of_nat (digits_val (ip @ fp)) :: rat;
          e = (if eneg then - int (digits_val ep) else int (digits_val ep)) - int (length fp)
      in if ok_int \<and> (has_frac \<longrightarrow> fp \<noteq> []) \<and> (has_exp \<longrightarrow> ep \<noteq> []) \<and> r4 = []
         then Some ((if neg then - m else m) * pow10 e)
         else None)"

definition literal_of :: "jstring \<Rightarrow> json option" where
  "literal_of w =
     map_of [(str ''true'', JBool True), (str ''false'', JBool False), (str ''null'', JNull)] w"

subsection \<open>The scanner\<close>

text \<open>
  What the scanner is inside of: nothing, a string (the code units read so far, last
  first), an escape of a string, the hexadecimal digits of a \<open>\u\<close> escape, a number, a
  word.
\<close>

datatype lex_state =
    LStart
  | LString jstring
  | LEscape jstring
  | LUnicode jstring jstring
  | LNumber jstring
  | LWord jstring

definition start_char :: "nat \<Rightarrow> (token list \<times> lex_state) option" where
  "start_char c =
     (if json_ws c then Some ([], LStart)
      else if c = ch CHR ''{'' then Some ([TLBrace], LStart)
      else if c = ch CHR ''}'' then Some ([TRBrace], LStart)
      else if c = ch CHR ''['' then Some ([TLBrack], LStart)
      else if c = ch CHR '']'' then Some ([TRBrack], LStart)
      else if c = ch CHR '':'' then Some ([TColon], LStart)
      else if c = ch CHR '','' then Some ([TComma], LStart)
      else if c = 0x22 then Some ([], LString [])
      else if is_digit c \<or> c = ch CHR ''-'' then Some ([], LNumber [c])
      else if is_letter c then Some ([], LWord [c])
      else None)"

text \<open>The token that ends with the code unit before \<open>c\<close>, then \<open>c\<close> read afresh.\<close>

definition end_token :: "token option \<Rightarrow> nat \<Rightarrow> (token list \<times> lex_state) option" where
  "end_token tok c =
     (case tok of
        None \<Rightarrow> None
      | Some t \<Rightarrow>
          (case start_char c of None \<Rightarrow> None | Some (ts, st) \<Rightarrow> Some (t # ts, st)))"

fun lex_step :: "lex_state \<Rightarrow> nat \<Rightarrow> (token list \<times> lex_state) option" where
  "lex_step LStart c = start_char c"
| "lex_step (LString acc) c =
     (if c = 0x22 then Some ([TString (rev acc)], LStart)
      else if c = 0x5C then Some ([], LEscape acc)
      else if c < 0x20 then None
      else Some ([], LString (c # acc)))"
| "lex_step (LEscape acc) c =
     (if c = ch CHR ''u'' then Some ([], LUnicode acc [])
      else (case unescape c of None \<Rightarrow> None | Some d \<Rightarrow> Some ([], LString (d # acc))))"
| "lex_step (LUnicode acc ds) c =
     (case hex_val c of
        None \<Rightarrow> None
      | Some _ \<Rightarrow>
          if length ds = 3
          then Some ([], LString (hex_number (rev (c # ds)) # acc))
          else Some ([], LUnicode acc (c # ds)))"
| "lex_step (LNumber acc) c =
     (if number_char c then Some ([], LNumber (c # acc))
      else end_token (map_option TNumber (number_of (rev acc))) c)"
| "lex_step (LWord acc) c =
     (if is_letter c then Some ([], LWord (c # acc))
      else end_token (map_option TLiteral (literal_of (rev acc))) c)"

fun lex_finish :: "lex_state \<Rightarrow> token list option" where
  "lex_finish LStart = Some []"
| "lex_finish (LNumber acc) = map_option (\<lambda>r. [TNumber r]) (number_of (rev acc))"
| "lex_finish (LWord acc) = map_option (\<lambda>v. [TLiteral v]) (literal_of (rev acc))"
| "lex_finish _ = None"

fun lex :: "lex_state \<Rightarrow> jstring \<Rightarrow> token list option" where
  "lex st [] = lex_finish st"
| "lex st (c # cs) =
     (case lex_step st c of
        None \<Rightarrow> None
      | Some (ts, st') \<Rightarrow> map_option (\<lambda>rest. ts @ rest) (lex st' cs))"

subsection \<open>The stack automaton\<close>

text \<open>
  An open array with its elements (last first), or an open object with its members and
  the key that waits for its value.
\<close>

datatype frame = FArray "json list" | FObject "(jstring \<times> json) list" "jstring option"

text \<open>What may come next.\<close>

datatype mode =
    ExpValue | ExpValueOrEnd | ExpKeyOrEnd | ExpKey | ExpColon | ExpCommaOrEnd
  | Finished json

fun set_member :: "jstring \<Rightarrow> json \<Rightarrow> (jstring \<times> json) list \<Rightarrow> (jstring \<times> json) list" where
  "set_member k v [] = [(k, v)]"
| "set_member k v (p # ps) = (if fst p = k then (k, v) # ps else p # set_member k v ps)"

text \<open>A value is complete: it is the result, or it goes into the innermost open frame.\<close>

fun put_value :: "json \<Rightarrow> frame list \<Rightarrow> (mode \<times> frame list) option" where
  "put_value v [] = Some (Finished v, [])"
| "put_value v (FArray xs # st) = Some (ExpCommaOrEnd, FArray (v # xs) # st)"
| "put_value v (FObject ms (Some k) # st) =
     Some (ExpCommaOrEnd, FObject (set_member k v ms) None # st)"
| "put_value v (FObject ms None # st) = None"

fun start_value :: "frame list \<Rightarrow> token \<Rightarrow> (mode \<times> frame list) option" where
  "start_value st (TString s) = put_value (JString s) st"
| "start_value st (TNumber r) = put_value (JNumber r) st"
| "start_value st (TLiteral v) = put_value v st"
| "start_value st TLBrack = Some (ExpValueOrEnd, FArray [] # st)"
| "start_value st TLBrace = Some (ExpKeyOrEnd, FObject [] None # st)"
| "start_value st _ = None"

fun take_key :: "frame list \<Rightarrow> token \<Rightarrow> (mode \<times> frame list) option" where
  "take_key (FObject ms None # st) (TString k) = Some (ExpColon, FObject ms (Some k) # st)"
| "take_key _ _ = None"

fun close_frame :: "frame list \<Rightarrow> token \<Rightarrow> (mode \<times> frame list) option" where
  "close_frame (FArray xs # st) TRBrack = put_value (JArray (rev xs)) st"
| "close_frame (FObject ms None # st) TRBrace = put_value (JObject ms) st"
| "close_frame _ _ = None"

fun after_comma :: "frame list \<Rightarrow> (mode \<times> frame list) option" where
  "after_comma (FArray xs # st) = Some (ExpValue, FArray xs # st)"
| "after_comma (FObject ms None # st) = Some (ExpKey, FObject ms None # st)"
| "after_comma _ = None"

fun parse_step :: "mode \<Rightarrow> frame list \<Rightarrow> token \<Rightarrow> (mode \<times> frame list) option" where
  "parse_step (Finished v) st t = None"
| "parse_step ExpValue st t = start_value st t"
| "parse_step ExpValueOrEnd st t = (if t = TRBrack then close_frame st t else start_value st t)"
| "parse_step ExpKey st t = take_key st t"
| "parse_step ExpKeyOrEnd st t = (if t = TRBrace then close_frame st t else take_key st t)"
| "parse_step ExpColon st t = (if t = TColon then Some (ExpValue, st) else None)"
| "parse_step ExpCommaOrEnd st t = (if t = TComma then after_comma st else close_frame st t)"

fun parse_tokens :: "mode \<Rightarrow> frame list \<Rightarrow> token list \<Rightarrow> json option" where
  "parse_tokens m st [] = (case m of Finished v \<Rightarrow> Some v | _ \<Rightarrow> None)"
| "parse_tokens m st (t # ts) =
     (case parse_step m st t of
        None \<Rightarrow> None
      | Some (m', st') \<Rightarrow> parse_tokens m' st' ts)"

definition syntax_error :: jstring where
  "syntax_error = str ''Unexpected token in JSON''"

definition JSON_parse :: "jstring \<Rightarrow> jstring + json" where
  "JSON_parse s =
     (case lex LStart s of
        None \<Rightarrow> Inl syntax_error
      | Some ts \<Rightarrow>
          (case parse_tokens ExpValue [] ts of
             None \<Rightarrow> Inl syntax_error
           | Some v \<Rightarrow> Inr v))"

section \<open>Examples and the wording of the specification\<close>

text \<open>A service that answers every request in the same way.\<close>

definition always :: "api_outcome \<Rightarrow> request \<Rightarrow> api_outcome" where
  "always outcome req = outcome"

text \<open>
  The selected built-in criteria as the specification lists them: in the order of the
  catalogue.
\<close>

definition catalog_order :: "jstring list \<Rightarrow> jstring list" where
  "catalog_order selected = filter (\<lambda>c. c \<in> set selected) AVAILABLE_CRITERIA"

text \<open>A synthetic response: one criterion, with \<open>n\<close> feedback points.\<close>

definition synthetic_response :: "nat \<Rightarrow> ReviewFeedback" where
  "synthetic_response n =
     \<lparr>rf_summary = (str ''A clear essay.''),
      rf_overallScore = 72,
      rf_reviews =
        [\<lparr>cr_criterion = (str ''Clarity''),
          cr_score = Good,
          cr_visualBar =
            [0x25A0, 0x25A0, 0x25A0, 0x25A0, 0x25A1],
          cr_feedbackPoints =
            replicate n
              \<lparr>fp_point = (str ''The thesis is stated late [Page 2]''),
               fp_highlight = Some (str ''In conclusion, this essay argues''),
               fp_general_feedback = None\<rparr>\<rparr>]\<rparr>"

section \<open>Properties\<close>

subsection \<open>Literals\<close>

lemma ch_inject [simp]: "ch a = ch b \<longleftrightarrow> a = b"
  by (simp add: ch_def)

lemma str_inject [simp]: "str a = str b \<longleftrightarrow> a = b"
  by (simp add: str_def inj_map_eq_map inj_on_def)

lemma str_Nil [simp]: "str [] = []"
  by (simp add: str_def)

lemma str_eq_Nil [simp]: "str a = [] \<longleftrightarrow> a = []" "[] = str a \<longleftrightarrow> a = []"
  by (auto simp: str_def)

lemma str_append: "str (a @ b) = str a @ str b"
  by (simp add: str_def)

lemma str_Cons: "str (c # cs) = ch c # str cs"
  by (simp add: str_def)

lemma ch_in_str [simp]: "ch c \<in> set (str s) \<longleftrightarrow> c \<in> set s"
  by (auto simp: str_def)

subsection \<open>Splitting a file name\<close>

lemma split_on_nonempty: "split_on c s \<noteq> []"
  by (induction s) (auto split: list.splits)

lemma split_on_no_sep: "c \<notin> set e \<Longrightarrow> split_on c e = [e]"
  by (induction e) auto

lemma split_on_append: "split_on c (xs @ c # ys) = split_on c xs @ split_on c ys"
  by (induction xs) (auto simp: split_on_nonempty split: list.splits)

lemma last_split_on: "c \<notin> set e \<Longrightarrow> last (split_on c (stem @ c # e)) = e"
  by (simp add: split_on_append split_on_no_sep)

lemma file_ext_last:
  "file_ext f = Some (toLowerCase (last (split_on (ch CHR ''.'') (file_name f))))"
  by (simp add: file_ext_def pop_def split_on_nonempty)

lemma file_ext_of_name:
  "file_name f = stem @ str ''.'' @ e \<Longrightarrow> ch CHR ''.'' \<notin> set e \<Longrightarrow>
   file_ext f = Some (toLowerCase e)"
  by (simp add: file_ext_last last_split_on str_Cons)


lemma lower_examples:
  "toLowerCase (str ''pdf'') = str ''pdf''"
  "toLowerCase (str ''DOCX'') = str ''docx''"
  "toLowerCase (str ''txt'') = str ''txt''"
  by code_simp+

lemma toLowerCase_Nil [simp]: "toLowerCase [] = []"
  by (simp add: toLowerCase_def)

lemma toLowerCase_Cons: "toLowerCase (c # e) = lower_unit c @ toLowerCase e"
  by (simp add: toLowerCase_def)

lemma toLowerCase_eq_Nil [simp]: "toLowerCase e = [] \<longleftrightarrow> e = []"
  by (cases e) (simp_all add: toLowerCase_Cons lower_unit_def)





subsection \<open>Start new review\<close>

text \<open>
  C9. \<open>reset\<close> leaves the document category as it was, and puts the text input, the
  file, the selected criteria, the custom criteria, the critique level, the feedback, the
  error and the loading flag back to the values they have in the initial state. The
  whole state after \<open>reset\<close> is the initial one but for the category (and the drag flag,
  which \<open>reset\<close> does not touch either).
\<close>

theorem reset_keeps_category:
  "category (reset s) = category s \<and>
   textInput (reset s) = textInput initial \<and>
   file' (reset s) = file' initial \<and>
   selectedCriteria (reset s) = selectedCriteria initial \<and>
   customCriteria (reset s) = customCriteria initial \<and>
   critiqueLevel (reset s) = critiqueLevel initial \<and>
   feedback (reviewState (reset s)) = feedback (reviewState initial) \<and>
   error (reviewState (reset s)) = error (reviewState initial) \<and>
   isLoading (reviewState (reset s)) = isLoading (reviewState initial) \<and>
   reset s = initial\<lparr>category := category s, isDragging := isDragging s\<rparr>"
  by (simp add: reset_def clearFile_def initial_def)

subsection \<open>File upload\<close>

text \<open>
  C5. A file of more than 4,194,304 bytes is rejected by \<open>processFile\<close>: the error of
  the review state becomes the size-limit message, which differs from the other two
  messages of the upload, nothing else in the state changes (the attached file stays as
  it was), and no read is started. A file of exactly 4,194,304 bytes passes the size
  check: what happens to it is decided by its extension alone, and with the extension
  \<open>pdf\<close> or \<open>docx\<close> the read is started.
\<close>

theorem processFile_size_boundary:
  "(4194304 < file_size f \<longrightarrow>
      processFile f s =
        (s\<lparr>reviewState :=
             (reviewState s)
               \<lparr>error := Some (str ''File size exceeds 4MB limit. Please try a smaller file.'')\<rparr>\<rparr>,
         None) \<and>
      error (reviewState (fst (processFile f s))) =
        Some (str ''File size exceeds 4MB limit. Please try a smaller file.'') \<and>
      file' (fst (processFile f s)) = file' s) \<and>
   (file_size f = 4194304 \<longrightarrow>
      processFile f s =
        (if file_ext f = Some (str ''pdf'')
         then (s, Some \<lparr>pr_name = file_name f, pr_mimeType = str ''application/pdf''\<rparr>)
         else if file_ext f = Some (str ''docx'')
         then (s, Some \<lparr>pr_name = file_name f,
                       pr_mimeType =
                         str ''application/vnd.openxmlformats-officedocument.wordprocessingml.document''\<rparr>)
         else (s\<lparr>reviewState :=
                   (reviewState s)
                     \<lparr>error := Some (str ''Only PDF and DOCX files are supported.'')\<rparr>\<rparr>,
               None))) \<and>
   size_error = str ''File size exceeds 4MB limit. Please try a smaller file.'' \<and>
   size_error \<noteq> type_error \<and> size_error \<noteq> read_error"
  by (simp add: processFile_def MAX_FILE_SIZE_def set_error_def size_error_def
      type_error_def read_error_def pdf_mime_def docx_mime_def)

theorem processFile_size_boundary_witness:
  "4194304 < file_size
      \<lparr>file_name = str ''big.pdf'', file_size = 4194305, file_type = str ''application/pdf''\<rparr> \<and>
   error (reviewState (fst (processFile
      \<lparr>file_name = str ''big.pdf'', file_size = 4194305, file_type = str ''application/pdf''\<rparr>
      initial))) =
     Some (str ''File size exceeds 4MB limit. Please try a smaller file.'') \<and>
   snd (processFile
      \<lparr>file_name = str ''big.pdf'', file_size = 4194305, file_type = str ''application/pdf''\<rparr>
      initial) = None \<and>
   file_size
      \<lparr>file_name = str ''report.pdf'', file_size = 4194304, file_type = str ''application/pdf''\<rparr> =
     4194304 \<and>
   processFile
      \<lparr>file_name = str ''report.pdf'', file_size = 4194304, file_type = str ''application/pdf''\<rparr>
      initial =
     (initial, Some \<lparr>pr_name = str ''report.pdf'', pr_mimeType = str ''application/pdf''\<rparr>)"
proof -
  have "file_ext
      \<lparr>file_name = str ''report.pdf'', file_size = 4194304, file_type = str ''application/pdf''\<rparr> =
      Some (str ''pdf'')"
    using file_ext_of_name [where stem = "str ''report''" and e = "str ''pdf''"]
    by (simp add: lower_examples str_append [symmetric])
  then show ?thesis
    using processFile_size_boundary
      [of "\<lparr>file_name = str ''big.pdf'', file_size = 4194305,
            file_type = str ''application/pdf''\<rparr>" initial]
      processFile_size_boundary
      [of "\<lparr>file_name = str ''report.pdf'', file_size = 4194304,
            file_type = str ''application/pdf''\<rparr>" initial]
    by simp
qed



text \<open>
  C10. When \<open>processFile\<close> rejects a file, because it is over the size limit or because
  its extension is neither \<open>pdf\<close> nor \<open>docx\<close>, no read is started and the state changes
  in the error message only: the attached file, the text input, the configuration, the
  feedback and the loading flag are as before.
\<close>

theorem processFile_rejection_frame:
  assumes "MAX_FILE_SIZE < file_size f \<or>
           (file_ext f \<noteq> Some (str ''pdf'') \<and> file_ext f \<noteq> Some (str ''docx''))"
  shows "snd (processFile f s) = None \<and>
         (\<exists>msg \<in> {size_error, type_error}.
            fst (processFile f s) = s\<lparr>reviewState := (reviewState s)\<lparr>error := Some msg\<rparr>\<rparr>) \<and>
         file' (fst (processFile f s)) = file' s \<and>
         textInput (fst (processFile f s)) = textInput s \<and>
         category (fst (processFile f s)) = category s \<and>
         critiqueLevel (fst (processFile f s)) = critiqueLevel s \<and>
         selectedCriteria (fst (processFile f s)) = selectedCriteria s \<and>
         customCriteria (fst (processFile f s)) = customCriteria s \<and>
         feedback (reviewState (fst (processFile f s))) = feedback (reviewState s) \<and>
         isLoading (reviewState (fst (processFile f s))) = isLoading (reviewState s)"
  using assms by (auto simp: processFile_def set_error_def)

theorem processFile_rejection_frame_witness:
  "snd (processFile
      \<lparr>file_name = str ''notes.txt'', file_size = 1000, file_type = str ''text/plain''\<rparr>
      (initial\<lparr>textInput := str ''draft''\<rparr>)) = None \<and>
   file' (fst (processFile
      \<lparr>file_name = str ''notes.txt'', file_size = 1000, file_type = str ''text/plain''\<rparr>
      (initial\<lparr>textInput := str ''draft''\<rparr>))) = None \<and>
   textInput (fst (processFile
      \<lparr>file_name = str ''notes.txt'', file_size = 1000, file_type = str ''text/plain''\<rparr>
      (initial\<lparr>textInput := str ''draft''\<rparr>))) = str ''draft''"
proof -
  have "file_ext
      \<lparr>file_name = str ''notes.txt'', file_size = 1000, file_type = str ''text/plain''\<rparr> =
      Some (str ''txt'')"
    using file_ext_of_name [where stem = "str ''notes''" and e = "str ''txt''"]
    by (simp add: lower_examples str_append [symmetric])
  then have "MAX_FILE_SIZE < file_size
        \<lparr>file_name = str ''notes.txt'', file_size = 1000, file_type = str ''text/plain''\<rparr> \<or>
      (file_ext
         \<lparr>file_name = str ''notes.txt'', file_size = 1000, file_type = str ''text/plain''\<rparr> \<noteq>
         Some (str ''pdf'') \<and>
       file_ext
         \<lparr>file_name = str ''notes.txt'', file_size = 1000, file_type = str ''text/plain''\<rparr> \<noteq>
         Some (str ''docx''))"
    by simp
  from processFile_rejection_frame [OF this, of "initial\<lparr>textInput := str ''draft''\<rparr>"]
  show ?thesis by (simp add: initial_def)
qed

subsection \<open>Submission and failure messages\<close>

text \<open>\<open>includes_str\<close> is the test for a contiguous piece.\<close>

lemma includes_str_iff: "includes_str s t \<longleftrightarrow> (\<exists>p q. s = p @ t @ q)"
proof (induction s)
  case Nil
  then show ?case by auto
next
  case (Cons c cs)
  show ?case
  proof
    assume "includes_str (c # cs) t"
    then consider "take (length t) (c # cs) = t" | "includes_str cs t" by auto
    then show "\<exists>p q. c # cs = p @ t @ q"
    proof cases
      case 1
      then have "c # cs = [] @ t @ drop (length t) (c # cs)"
        by (metis append_Nil append_take_drop_id)
      then show ?thesis by blast
    next
      case 2
      then obtain p q where "cs = p @ t @ q" using Cons.IH by blast
      then have "c # cs = (c # p) @ t @ q" by simp
      then show ?thesis by blast
    qed
  next
    assume "\<exists>p q. c # cs = p @ t @ q"
    then obtain p q where pq: "c # cs = p @ t @ q" by blast
    show "includes_str (c # cs) t"
    proof (cases p)
      case Nil
      then have "take (length t) (c # cs) = t" using pq by simp
      then show ?thesis by simp
    next
      case (Cons a p')
      then have "cs = p' @ t @ q" using pq by simp
      then have "includes_str cs t" using Cons.IH by blast
      then show ?thesis by simp
    qed
  qed
qed

lemma filter_nonblank_empty:
  "filter nonblank cs = [] \<longleftrightarrow> (\<forall>c \<in> set cs. trim (c_name c) = [])"
  by (auto simp: filter_empty_conv nonblank_def)

text \<open>
  C7. Whenever the text input is empty and no file is attached, \<open>handleReview\<close> sets
  the error of the review state to the message that asks for a document or text, changes
  nothing else, and sends nothing to the service, whatever the criteria are: the check
  of the content comes first. Whenever there is content but no built-in criterion is
  selected and the name of every custom criterion is blank (empty once trimmed of white
  space), it sets the error to the message that asks for a criterion, changes nothing
  else, and again sends nothing.
\<close>

theorem handleReview_preconditions:
  "(textInput s = [] \<and> file' s = None \<longrightarrow>
      handleReview api parse s =
        (s\<lparr>reviewState :=
             (reviewState s)
               \<lparr>error := Some (str ''Please upload a document or paste text to review.'')\<rparr>\<rparr>,
         [])) \<and>
   ((textInput s \<noteq> [] \<or> file' s \<noteq> None) \<and> selectedCriteria s = [] \<and>
    (\<forall>c \<in> set (customCriteria s). trim (c_name c) = []) \<longrightarrow>
      handleReview api parse s =
        (s\<lparr>reviewState :=
             (reviewState s)
               \<lparr>error :=
                  Some (str ''Please select at least one evaluation criterion or add a custom one.'')\<rparr>\<rparr>,
         [])) \<and>
   content_error = str ''Please upload a document or paste text to review.'' \<and>
   criteria_error = str ''Please select at least one evaluation criterion or add a custom one.''"
  by (simp add: handleReview_def filter_nonblank_empty content_error_def criteria_error_def
      set_error_def)

lemma blank_names:
  "trim [] = []" "trim [0x00A0] = []" "trim [0x0020, 0x3000, 0x0009] = []"
  by (simp_all add: trim_def is_space_def)

theorem handleReview_preconditions_witness:
  "error (reviewState (fst (handleReview (always (Resolves None)) JSON_parse initial))) =
     Some (str ''Please upload a document or paste text to review.'') \<and>
   snd (handleReview (always (Resolves None)) JSON_parse initial) = [] \<and>
   error (reviewState (fst (handleReview (always (Resolves None)) JSON_parse
     (initial\<lparr>textInput := str ''draft'',
              customCriteria :=
                [\<lparr>c_id = str ''1'', c_name = [0x00A0], c_keywords = []\<rparr>,
                 \<lparr>c_id = str ''2'', c_name = [0x0020, 0x3000, 0x0009], c_keywords = []\<rparr>]\<rparr>)))) =
     Some (str ''Please select at least one evaluation criterion or add a custom one.'') \<and>
   snd (handleReview (always (Resolves None)) JSON_parse
     (initial\<lparr>textInput := str ''draft'',
              customCriteria :=
                [\<lparr>c_id = str ''1'', c_name = [0x00A0], c_keywords = []\<rparr>,
                 \<lparr>c_id = str ''2'', c_name = [0x0020, 0x3000, 0x0009], c_keywords = []\<rparr>]\<rparr>)) = []"
proof -
  have a: "handleReview (always (Resolves None)) JSON_parse initial =
      (initial\<lparr>reviewState :=
           (reviewState initial)
             \<lparr>error := Some (str ''Please upload a document or paste text to review.'')\<rparr>\<rparr>,
       [])"
    using handleReview_preconditions [of initial "always (Resolves None)" JSON_parse]
    by (simp add: initial_def)
  have b: "handleReview (always (Resolves None)) JSON_parse
     (initial\<lparr>textInput := str ''draft'',
              customCriteria :=
                [\<lparr>c_id = str ''1'', c_name = [0x00A0], c_keywords = []\<rparr>,
                 \<lparr>c_id = str ''2'', c_name = [0x0020, 0x3000, 0x0009], c_keywords = []\<rparr>]\<rparr>) =
      ((initial\<lparr>textInput := str ''draft'',
              customCriteria :=
                [\<lparr>c_id = str ''1'', c_name = [0x00A0], c_keywords = []\<rparr>,
                 \<lparr>c_id = str ''2'', c_name = [0x0020, 0x3000, 0x0009], c_keywords = []\<rparr>]\<rparr>)
         \<lparr>reviewState :=
            (reviewState initial)
              \<lparr>error :=
                 Some (str ''Please select at least one evaluation criterion or add a custom one.'')\<rparr>\<rparr>,
       [])"
    using handleReview_preconditions
      [of "initial\<lparr>textInput := str ''draft'',
              customCriteria :=
                [\<lparr>c_id = str ''1'', c_name = [0x00A0], c_keywords = []\<rparr>,
                 \<lparr>c_id = str ''2'', c_name = [0x0020, 0x3000, 0x0009], c_keywords = []\<rparr>]\<rparr>"
        "always (Resolves None)" JSON_parse]
    by (simp add: initial_def blank_names)
  show ?thesis
    unfolding a b by simp
qed

lemma parts_of_nonempty: "has_content s \<Longrightarrow> parts_of (textInput s) (file' s) \<noteq> []"
  by (auto simp: has_content_def parts_of_def split: option.splits)

lemma catch_message_nonempty: "catch_message m \<noteq> []"
  by (simp add: catch_message_def connection_error_def unexpected_error_def split: option.splits)

lemma no_response_not_connection:
  "\<not> includes_str (str ''No response generated from the model.'') (str ''Rpc failed'')"
  "\<not> includes_str (str ''No response generated from the model.'') (str ''xhr error'')"
  by code_simp+

lemma catch_no_response: "catch_message (Some no_response_error) = no_response_error"
  by (simp add: catch_message_def no_response_error_def no_response_not_connection)

lemma handleReview_dispatch:
  assumes "has_content s" and "has_criteria s"
  shows "handleReview api parse s =
     (case api (review_request s) of
        Rejects message \<Rightarrow>
          (s\<lparr>reviewState :=
               \<lparr>isLoading = False, error = Some (catch_message message), feedback = JNull\<rparr>\<rparr>,
           [review_request s])
      | Resolves None \<Rightarrow>
          (s\<lparr>reviewState :=
               \<lparr>isLoading = False, error = Some no_response_error, feedback = JNull\<rparr>\<rparr>,
           [review_request s])
      | Resolves (Some jsonText) \<Rightarrow>
          if jsonText = []
          then (s\<lparr>reviewState :=
                    \<lparr>isLoading = False, error = Some no_response_error, feedback = JNull\<rparr>\<rparr>,
                [review_request s])
          else (case parse jsonText of
                  Inl message \<Rightarrow>
                    (s\<lparr>reviewState :=
                         \<lparr>isLoading = False, error = Some (catch_message (Some message)),
                          feedback = JNull\<rparr>\<rparr>,
                     [review_request s])
                | Inr v \<Rightarrow>
                    (s\<lparr>reviewState := \<lparr>isLoading = False, error = None, feedback = v\<rparr>\<rparr>,
                     [review_request s])))"
proof -
  have parts: "length (parts_of (textInput s) (file' s)) \<noteq> 0"
    using parts_of_nonempty [OF assms(1)] by simp
  have checks: "\<not> (textInput s = [] \<and> file' s = None)"
    "\<not> (length (selectedCriteria s) = 0 \<and> length (filter nonblank (customCriteria s)) = 0)"
    using assms by (auto simp: has_content_def has_criteria_def filter_empty_conv)
  define r where "r = review_request s"
  have ad: "analyzeDocument api parse (category s) (selectedCriteria s)
        (filter nonblank (customCriteria s)) (critiqueLevel s) (textInput s) (file' s) =
      (case api r of
         Rejects message \<Rightarrow> (Inl (catch_message message), [r])
       | Resolves None \<Rightarrow> (Inl no_response_error, [r])
       | Resolves (Some jsonText) \<Rightarrow>
           if jsonText = [] then (Inl no_response_error, [r])
           else (case parse jsonText of
                   Inl message \<Rightarrow> (Inl (catch_message (Some message)), [r])
                 | Inr v \<Rightarrow> (Inr v, [r])))"
    using parts unfolding analyzeDocument_def r_def review_request_def Let_def catch_no_response
    by simp
  have hr: "handleReview api parse s =
      (case analyzeDocument api parse (category s) (selectedCriteria s)
                 (filter nonblank (customCriteria s)) (critiqueLevel s) (textInput s) (file' s) of
            (Inr fb, calls) \<Rightarrow>
              (s\<lparr>reviewState := \<lparr>isLoading = False, error = None, feedback = fb\<rparr>\<rparr>, calls)
          | (Inl message, calls) \<Rightarrow>
              (s\<lparr>reviewState :=
                   \<lparr>isLoading = False,
                    error = Some (if message \<noteq> [] then message else unexpected_error),
                    feedback = JNull\<rparr>\<rparr>,
               calls))"
    by (simp only: handleReview_def Let_def checks if_False)
  have nr: "no_response_error \<noteq> []" by (simp add: no_response_error_def)
  show ?thesis
  proof (cases "api r")
    case (Rejects message)
    then show ?thesis
      unfolding hr ad r_def [symmetric] by (simp add: catch_message_nonempty)
  next
    case (Resolves rt)
    show ?thesis
    proof (cases rt)
      case None
      then show ?thesis
        using Resolves nr unfolding hr ad r_def [symmetric] by simp
    next
      case (Some jsonText)
      show ?thesis
      proof (cases "jsonText = []")
        case True
        then show ?thesis
          using Resolves Some nr unfolding hr ad r_def [symmetric] by simp
      next
        case False
        then show ?thesis
          using Resolves Some unfolding hr ad r_def [symmetric]
          by (cases "parse jsonText") (simp_all add: catch_message_nonempty)
      qed
    qed
  qed
qed

text \<open>
  C8. A review request that passed the two checks and failed shows this message. When
  the message \<open>m\<close> of the underlying error (the error thrown by the call, or the syntax
  error of parsing the response text) contains \<open>Rpc failed\<close> or \<open>xhr error\<close>, the
  connection-error message that advises a smaller file; when \<open>m\<close> is not empty and
  contains neither marker, \<open>m\<close> itself; when the response has no text or an empty text,
  the message that no response was generated. The two fixed messages are the texts of
  the source.
\<close>

theorem review_failure_message:
  assumes "has_content s" and "has_criteria s"
  shows
    "((api (review_request s) = Rejects (Some m) \<or>
       api (review_request s) = Resolves (Some jsonText) \<and> jsonText \<noteq> [] \<and>
         parse jsonText = Inl m) \<and>
      (includes_str m (str ''Rpc failed'') \<or> includes_str m (str ''xhr error'')) \<longrightarrow>
        error (reviewState (fst (handleReview api parse s))) = Some connection_error) \<and>
     ((api (review_request s) = Rejects (Some m) \<or>
       api (review_request s) = Resolves (Some jsonText) \<and> jsonText \<noteq> [] \<and>
         parse jsonText = Inl m) \<and>
      m \<noteq> [] \<and> \<not> includes_str m (str ''Rpc failed'') \<and> \<not> includes_str m (str ''xhr error'') \<longrightarrow>
        error (reviewState (fst (handleReview api parse s))) = Some m) \<and>
     (api (review_request s) = Resolves None \<or> api (review_request s) = Resolves (Some []) \<longrightarrow>
        error (reviewState (fst (handleReview api parse s))) = Some no_response_error) \<and>
     connection_error =
       str (''Connection error. The file may be too large or the format is not supported. '' @
            ''Please try a smaller PDF (under 4MB) or plain text file.'') \<and>
     no_response_error = str ''No response generated from the model.''"
proof -
  have "connection_error =
       str (''Connection error. The file may be too large or the format is not supported. '' @
            ''Please try a smaller PDF (under 4MB) or plain text file.'')"
    by (simp add: connection_error_def str_def)
  moreover have "no_response_error = str ''No response generated from the model.''"
    by (simp add: no_response_error_def)
  moreover have
    "((api (review_request s) = Rejects (Some m) \<or>
       api (review_request s) = Resolves (Some jsonText) \<and> jsonText \<noteq> [] \<and>
         parse jsonText = Inl m) \<and>
      (includes_str m (str ''Rpc failed'') \<or> includes_str m (str ''xhr error'')) \<longrightarrow>
        error (reviewState (fst (handleReview api parse s))) = Some connection_error) \<and>
     ((api (review_request s) = Rejects (Some m) \<or>
       api (review_request s) = Resolves (Some jsonText) \<and> jsonText \<noteq> [] \<and>
         parse jsonText = Inl m) \<and>
      m \<noteq> [] \<and> \<not> includes_str m (str ''Rpc failed'') \<and> \<not> includes_str m (str ''xhr error'') \<longrightarrow>
        error (reviewState (fst (handleReview api parse s))) = Some m) \<and>
     (api (review_request s) = Resolves None \<or> api (review_request s) = Resolves (Some []) \<longrightarrow>
        error (reviewState (fst (handleReview api parse s))) = Some no_response_error)"
    unfolding handleReview_dispatch [OF assms]
    by (auto simp: catch_message_def)
  ultimately show ?thesis
    by (intro conjI) blast+
qed

theorem review_failure_message_witness:
  "error (reviewState (fst (handleReview (always (Rejects (Some (str ''Rpc failed: deadline'')))) JSON_parse
      (initial\<lparr>textInput := (str ''draft''), selectedCriteria := [str ''Clarity'']\<rparr>)))) =
     Some connection_error \<and>
   error (reviewState (fst (handleReview (always (Rejects (Some (str ''quota exceeded'')))) JSON_parse
      (initial\<lparr>textInput := (str ''draft''), selectedCriteria := [str ''Clarity'']\<rparr>)))) =
     Some (str ''quota exceeded'') \<and>
   error (reviewState (fst (handleReview (always (Resolves None)) JSON_parse
      (initial\<lparr>textInput := (str ''draft''), selectedCriteria := [str ''Clarity'']\<rparr>)))) =
     Some no_response_error"
proof -
  have c: "has_content (initial\<lparr>textInput := (str ''draft''), selectedCriteria := [str ''Clarity'']\<rparr>)"
    by (simp add: has_content_def)
  have k: "has_criteria (initial\<lparr>textInput := (str ''draft''), selectedCriteria := [str ''Clarity'']\<rparr>)"
    by (simp add: has_criteria_def)
  have m1: "includes_str (str ''Rpc failed: deadline'') (str ''Rpc failed'')"
    by code_simp
  have m2: "\<not> includes_str (str ''quota exceeded'') (str ''Rpc failed'')"
    "\<not> includes_str (str ''quota exceeded'') (str ''xhr error'')"
    by code_simp+
  have "error (reviewState (fst (handleReview (always (Rejects (Some (str ''Rpc failed: deadline'')))) JSON_parse
      (initial\<lparr>textInput := (str ''draft''), selectedCriteria := [str ''Clarity'']\<rparr>)))) =
     Some connection_error"
    using review_failure_message [OF c k, of "always (Rejects (Some (str ''Rpc failed: deadline'')))"
        "str ''Rpc failed: deadline''" "[]" JSON_parse] m1
    by (simp add: always_def)
  moreover have "error (reviewState (fst (handleReview (always (Rejects (Some (str ''quota exceeded'')))) JSON_parse
      (initial\<lparr>textInput := (str ''draft''), selectedCriteria := [str ''Clarity'']\<rparr>)))) =
     Some (str ''quota exceeded'')"
    using review_failure_message [OF c k, of "always (Rejects (Some (str ''quota exceeded'')))"
        "str ''quota exceeded''" "[]" JSON_parse] m2
    by (simp add: always_def)
  moreover have "error (reviewState (fst (handleReview (always (Resolves None)) JSON_parse
      (initial\<lparr>textInput := (str ''draft''), selectedCriteria := [str ''Clarity'']\<rparr>)))) =
     Some no_response_error"
    using review_failure_message [OF c k, of "always (Resolves None)" "[]" "[]" JSON_parse]
    by (simp add: always_def)
  ultimately show ?thesis by simp
qed

subsection \<open>What the handlers leave alone\<close>

lemma handleReview_frame:
  "fst (handleReview api parse s) =
     s\<lparr>reviewState := reviewState (fst (handleReview api parse s))\<rparr>"
  by (simp add: handleReview_def Let_def set_error_def split: prod.splits sum.splits)

lemma processFile_frame:
  "fst (processFile f s) = s\<lparr>reviewState := reviewState (fst (processFile f s))\<rparr>"
  by (simp add: processFile_def Let_def set_error_def)

lemma handleReview_criteria [simp]:
  "selectedCriteria (fst (handleReview api parse s)) = selectedCriteria s"
  "customCriteria (fst (handleReview api parse s)) = customCriteria s"
  by (subst handleReview_frame, simp)+

lemma processFile_criteria [simp]:
  "selectedCriteria (fst (processFile f s)) = selectedCriteria s"
  "customCriteria (fst (processFile f s)) = customCriteria s"
  by (subst processFile_frame, simp)+

subsection \<open>Counting words\<close>

lemma countWords_empty [simp]: "countWords [] = 0"
  by (simp add: countWords_def trim_def)

lemma prevValue_keywords_of: "prevValue i s = keywords_of i s"
  by (simp add: prevValue_def keywords_of_def split: option.splits)

lemma keywords_of_cases:
  "keywords_of i s = [] \<or> (\<exists>c \<in> set (customCriteria s). keywords_of i s = c_keywords c)"
  by (auto simp: keywords_of_def find_Some_iff split: option.splits)

lemma keywords_of_capped:
  assumes "\<forall>c \<in> set (customCriteria s). countWords (c_keywords c) \<le> MAX_WORD_COUNT"
  shows "countWords (keywords_of i s) \<le> MAX_WORD_COUNT"
  using keywords_of_cases [of i s] assms by auto

lemma change_keeps_cap:
  assumes "\<forall>c \<in> set (customCriteria s). countWords (c_keywords c) \<le> MAX_WORD_COUNT"
  shows "\<forall>c \<in> set (customCriteria (handleCustomCriterionChange i fld v s)).
           countWords (c_keywords c) \<le> MAX_WORD_COUNT"
proof (cases "fld = Keywords \<and> countWords v > MAX_WORD_COUNT \<and>
    countWords v > countWords (prevValue i s)")
  case True
  then show ?thesis
    using assms by (simp add: handleCustomCriterionChange_def Let_def)
next
  case False
  have prev: "countWords (prevValue i s) \<le> MAX_WORD_COUNT"
    using keywords_of_capped [OF assms] by (simp add: prevValue_keywords_of)
  have new: "countWords (c_keywords (set_field fld v c)) \<le> MAX_WORD_COUNT"
    if "c \<in> set (customCriteria s)" for c
  proof (cases fld)
    case Name
    then show ?thesis using assms that by simp
  next
    case Keywords
    then show ?thesis using False prev by auto
  qed
  show ?thesis
    using False assms new
    by (auto simp: handleCustomCriterionChange_def Let_def)
qed

lemma change_keeps_ids:
  "map c_id (customCriteria (handleCustomCriterionChange i fld v s)) = map c_id (customCriteria s)"
proof -
  have "c_id (set_field fld v c) = c_id c" for c
    by (cases fld) simp_all
  then show ?thesis
    by (simp add: handleCustomCriterionChange_def Let_def comp_def)
qed

lemma change_keeps_selection [simp]:
  "selectedCriteria (handleCustomCriterionChange i fld v s) = selectedCriteria s"
  by (simp add: handleCustomCriterionChange_def Let_def)

subsection \<open>The states of a session\<close>

lemma catalogue_distinct: "distinct AVAILABLE_CRITERIA"
  by (simp add: AVAILABLE_CRITERIA_def)

lemma reachable_invariant:
  assumes "reachable s"
  shows "distinct (selectedCriteria s) \<and>
         set (selectedCriteria s) \<subseteq> set AVAILABLE_CRITERIA \<and>
         map c_id (customCriteria s) = [str ''1'', str ''2''] \<and>
         (\<forall>c \<in> set (customCriteria s). countWords (c_keywords c) \<le> MAX_WORD_COUNT)"
  using assms
proof (induction rule: reachable.induct)
  case r_initial
  then show ?case by (simp add: initial_def blank_criteria_def)
next
  case (r_toggleCriterion s c)
  then show ?case by (auto simp: toggleCriterion_def)
next
  case (r_toggleSelectAll s)
  then show ?case by (simp add: toggleSelectAll_def catalogue_distinct)
next
  case (r_customCriterionChange s c fld v)
  then show ?case
    using change_keeps_cap [of s "c_id c" fld v] by (simp add: change_keeps_ids)
next
  case (r_reset s)
  then show ?case by (simp add: reset_def clearFile_def blank_criteria_def)
qed (simp_all add: reader_onload_def reader_onerror_def clearFile_def set_error_def)

lemma split_ws_nonempty: "split_ws xs \<noteq> []"
  by (induction xs rule: split_ws.induct) (auto split: list.splits)

lemma last_dropWhile: "dropWhile P xs \<noteq> [] \<Longrightarrow> last (dropWhile P xs) = last xs"
  by (induction xs) (auto split: if_splits)

lemma split_ws_pieces:
  "xs \<noteq> [] \<Longrightarrow> \<not> is_space (last xs) \<Longrightarrow>
     [] \<notin> set (tl (split_ws xs)) \<and> (\<not> is_space (hd xs) \<longrightarrow> [] \<notin> set (split_ws xs))"
proof (induction xs rule: split_ws.induct)
  case 1
  then show ?case by simp
next
  case (2 x xs)
  show ?case
  proof (cases "is_space x")
    case True
    then have xs: "xs \<noteq> []" and lx: "\<not> is_space (last xs)"
      using "2.prems" by (auto split: if_splits)
    then have "last xs \<in> set xs" by simp
    then have ne: "dropWhile is_space xs \<noteq> []"
      using lx by (auto simp: dropWhile_eq_Nil_conv)
    then have "\<not> is_space (last (dropWhile is_space xs))"
      using lx by (simp add: last_dropWhile)
    moreover have "\<not> is_space (hd (dropWhile is_space xs))"
      using ne by (simp add: hd_dropWhile)
    ultimately have "[] \<notin> set (split_ws (dropWhile is_space xs))"
      using "2.IH"(1) [OF True ne] by simp
    then show ?thesis using True by simp
  next
    case False
    show ?thesis
    proof (cases "xs = []")
      case True
      then show ?thesis using False by simp
    next
      case ne: False
      then have "\<not> is_space (last xs)" using "2.prems" by simp
      then have "[] \<notin> set (tl (split_ws xs))"
        using "2.IH"(2) [OF False ne] by simp
      then show ?thesis
        using False split_ws_nonempty [of xs] by (auto split: list.splits)
    qed
  qed
qed

lemma trim_ends:
  assumes "trim v \<noteq> []"
  shows "\<not> is_space (hd (trim v))" and "\<not> is_space (last (trim v))"
proof -
  define a where "a = dropWhile is_space v"
  define b where "b = dropWhile is_space (rev a)"
  have t: "trim v = rev b" by (simp add: trim_def a_def b_def)
  then have b: "b \<noteq> []" using assms by simp
  then have "\<not> is_space (hd b)" unfolding b_def by (simp add: hd_dropWhile)
  then show "\<not> is_space (last (trim v))" using b by (simp add: t last_rev)
  have a: "a \<noteq> []" using b unfolding b_def by auto
  have "last b = last (rev a)" using b unfolding b_def by (rule last_dropWhile)
  then have "hd (trim v) = hd a" using a b by (simp add: t hd_rev last_rev)
  moreover have "\<not> is_space (hd a)" using a unfolding a_def by (simp add: hd_dropWhile)
  ultimately show "\<not> is_space (hd (trim v))" by simp
qed

lemma countWords_tokens:
  "countWords v = length (filter (\<lambda>w. w \<noteq> []) (split_ws (trim v)))"
proof (cases "trim v = []")
  case True
  then show ?thesis by (simp add: countWords_def)
next
  case False
  then have "[] \<notin> set (split_ws (trim v))"
    using split_ws_pieces [OF False] trim_ends [OF False] by simp
  then have "filter (\<lambda>w. w \<noteq> []) (split_ws (trim v)) = split_ws (trim v)"
    by (simp add: filter_id_conv) metis
  then show ?thesis using False by (simp add: countWords_def)
qed

lemma many_words: "countWords (concat (replicate 201 [0x61, 0x00A0])) = 201"
  by code_simp

text \<open>
  C4. In every state of a session, an edit of the keywords of a custom criterion leaves
  the word count of that criterion at 200 or less, or strictly below the count before the
  edit; an edit to a text of more than 200 words that is not a reduction of the count
  changes nothing, and an edit to a text of at most 200 words is stored. The word count
  of a text is the number of non-empty pieces between runs of white space of the trimmed
  text, white space being what \<open>\s\<close> and \<open>trim\<close> take for it (the no-break space
  included).
\<close>

theorem keywords_word_cap:
  assumes "reachable s"
  shows
    "(countWords (keywords_of i (handleCustomCriterionChange i Keywords v s)) \<le> 200 \<or>
      countWords (keywords_of i (handleCustomCriterionChange i Keywords v s)) <
        countWords (keywords_of i s)) \<and>
     (200 < countWords v \<and> \<not> countWords v < countWords (keywords_of i s) \<longrightarrow>
        handleCustomCriterionChange i Keywords v s = s) \<and>
     (countWords v \<le> 200 \<longrightarrow>
        customCriteria (handleCustomCriterionChange i Keywords v s) =
          map (\<lambda>c. if c_id c = i then c\<lparr>c_keywords := v\<rparr> else c) (customCriteria s)) \<and>
     countWords v = length (filter (\<lambda>w. w \<noteq> []) (split_ws (trim v)))"
proof -
  have cap: "\<forall>c \<in> set (customCriteria s). countWords (c_keywords c) \<le> MAX_WORD_COUNT"
    using reachable_invariant [OF assms] by simp
  have "countWords (keywords_of i (handleCustomCriterionChange i Keywords v s)) \<le> MAX_WORD_COUNT"
    using keywords_of_capped [OF change_keeps_cap [OF cap]] .
  moreover have "countWords (keywords_of i s) \<le> MAX_WORD_COUNT"
    using keywords_of_capped [OF cap] .
  moreover have "countWords v \<le> 200 \<longrightarrow>
      customCriteria (handleCustomCriterionChange i Keywords v s) =
        map (\<lambda>c. if c_id c = i then c\<lparr>c_keywords := v\<rparr> else c) (customCriteria s)"
    by (simp add: handleCustomCriterionChange_def MAX_WORD_COUNT_def Let_def)
  ultimately show ?thesis
    using countWords_tokens [of v]
    by (simp add: handleCustomCriterionChange_def prevValue_keywords_of MAX_WORD_COUNT_def)
qed

lemma few_words: "countWords (str ''method and data'') = 3"
  by code_simp

theorem keywords_word_cap_witness:
  "reachable initial \<and>
   customCriteria (handleCustomCriterionChange (str ''1'') Keywords (str ''method and data'') initial) =
     [\<lparr>c_id = str ''1'', c_name = [], c_keywords = str ''method and data''\<rparr>,
      \<lparr>c_id = str ''2'', c_name = [], c_keywords = []\<rparr>] \<and>
   countWords (concat (replicate 201 [0x61, 0x00A0])) = 201 \<and>
   handleCustomCriterionChange (str ''1'') Keywords (concat (replicate 201 [0x61, 0x00A0])) initial =
     initial"
proof -
  have "keywords_of (str ''1'') initial = []"
    by (simp add: keywords_of_def initial_def blank_criteria_def)
  then have big: "200 < countWords (concat (replicate 201 [0x61, 0x00A0])) \<and>
      \<not> countWords (concat (replicate 201 [0x61, 0x00A0])) <
        countWords (keywords_of (str ''1'') initial)"
    by (simp add: many_words)
  have small: "countWords (str ''method and data'') \<le> 200"
    by (simp add: few_words)
  have cs: "map (\<lambda>c. if c_id c = str ''1'' then c\<lparr>c_keywords := str ''method and data''\<rparr> else c)
       (customCriteria initial) =
     [\<lparr>c_id = str ''1'', c_name = [], c_keywords = str ''method and data''\<rparr>,
      \<lparr>c_id = str ''2'', c_name = [], c_keywords = []\<rparr>]"
    by (simp add: initial_def blank_criteria_def)
  have a: "customCriteria
       (handleCustomCriterionChange (str ''1'') Keywords (str ''method and data'') initial) =
     [\<lparr>c_id = str ''1'', c_name = [], c_keywords = str ''method and data''\<rparr>,
      \<lparr>c_id = str ''2'', c_name = [], c_keywords = []\<rparr>]"
    using keywords_word_cap [OF r_initial, of "str ''1''" "str ''method and data''"] small cs
    by simp
  have b: "handleCustomCriterionChange (str ''1'') Keywords
       (concat (replicate 201 [0x61, 0x00A0])) initial = initial"
    using keywords_word_cap [OF r_initial, of "str ''1''" "concat (replicate 201 [0x61, 0x00A0])"]
      big
    by blast
  show ?thesis
    using a b r_initial many_words by simp
qed

text \<open>
  The guard compares with \<open>>\<close>: in a state whose keywords were already over the limit
  (no handler produces one) an edit to another text of the same count would be applied.
\<close>

lemma change_applied_unless_growth:
  "\<not> (MAX_WORD_COUNT < countWords v \<and> countWords (keywords_of i s) < countWords v) \<Longrightarrow>
   customCriteria (handleCustomCriterionChange i Keywords v s) =
     map (\<lambda>c. if c_id c = i then c\<lparr>c_keywords := v\<rparr> else c) (customCriteria s)"
  by (auto simp: handleCustomCriterionChange_def prevValue_keywords_of Let_def)

subsection \<open>Responses that parse\<close>

lemma parse_missing_reviews:
  \<open>JSON_parse (str ''{"summary":"ok","overallScore":50}'') =
     Inr (JObject [(str ''summary'', JString (str ''ok'')), (str ''overallScore'', JNumber 50)])\<close>
  by code_simp

lemma parse_empty_reviews:
  \<open>JSON_parse (str ''{"summary":"ok","overallScore":50,"reviews":[]}'') =
     Inr (JObject [(str ''summary'', JString (str ''ok'')), (str ''overallScore'', JNumber 50),
                   (str ''reviews'', JArray [])])\<close>
  by code_simp

lemma example_state_ready:
  "has_content (initial\<lparr>textInput := (str ''draft''), selectedCriteria := [str ''Clarity'']\<rparr>)"
  "has_criteria (initial\<lparr>textInput := (str ''draft''), selectedCriteria := [str ''Clarity'']\<rparr>)"
  by (simp_all add: has_content_def has_criteria_def)

text \<open>
  C1, as stated, fails. The response text below parses, and has a summary and a score
  but no \<open>reviews\<close>; the request made with it succeeds: the loading flag is cleared,
  there is no error, and the parsed value, which does not fit the schema, is the feedback.
\<close>

theorem missing_reviews_accepted:
  \<open>handleReview (always (Resolves (Some (str ''{"summary":"ok","overallScore":50}'')))) JSON_parse
      (initial\<lparr>textInput := (str ''draft''), selectedCriteria := [str ''Clarity'']\<rparr>) =
     (initial\<lparr>textInput := (str ''draft''), selectedCriteria := [str ''Clarity''],
              reviewState :=
                \<lparr>isLoading = False, error = None,
                 feedback = JObject [(str ''summary'', JString (str ''ok'')), (str ''overallScore'', JNumber 50)]\<rparr>\<rparr>,
      [review_request (initial\<lparr>textInput := (str ''draft''), selectedCriteria := [str ''Clarity'']\<rparr>)]) \<and>
   map_of [(str ''summary'', JString (str ''ok'')), (str ''overallScore'', JNumber 50)] (str ''reviews'') = None \<and>
   \<not> validates responseSchema
       (JObject [(str ''summary'', JString (str ''ok'')), (str ''overallScore'', JNumber 50)])\<close>
proof -
  have "\<not> validates responseSchema
       (JObject [(str ''summary'', JString (str ''ok'')), (str ''overallScore'', JNumber 50)])"
    by (simp add: responseSchema_def)
  then show ?thesis
    unfolding handleReview_dispatch [OF example_state_ready]
    by (simp add: always_def parse_missing_reviews)
qed

text \<open>
  C1, amended. When the external call returns a text that is not empty and parses as
  JSON, the request succeeds and the parsed value becomes the feedback as it is, whatever
  fields it has; \<open>analyzeDocument\<close> returns the result of \<open>JSON.parse\<close> under a cast and
  nothing checks it against the schema. A request that was sent ends without an error
  exactly when its response has a non-empty text that parses.
\<close>

theorem parsed_response_accepted:
  assumes "has_content s" and "has_criteria s"
  shows
    "(api (review_request s) = Resolves (Some jsonText) \<and> jsonText \<noteq> [] \<and>
      parse jsonText = Inr v \<longrightarrow>
        handleReview api parse s =
          (s\<lparr>reviewState := \<lparr>isLoading = False, error = None, feedback = v\<rparr>\<rparr>,
           [review_request s])) \<and>
     (error (reviewState (fst (handleReview api parse s))) = None \<longleftrightarrow>
        (\<exists>t w. api (review_request s) = Resolves (Some t) \<and> t \<noteq> [] \<and> parse t = Inr w))"
  unfolding handleReview_dispatch [OF assms]
  by (auto split: api_outcome.splits option.splits sum.splits)

theorem parsed_response_accepted_witness:
  \<open>handleReview
      (always (Resolves (Some (str ''{"summary":"ok","overallScore":50,"reviews":[]}'')))) JSON_parse
      (initial\<lparr>textInput := (str ''draft''), selectedCriteria := [str ''Clarity'']\<rparr>) =
     (initial\<lparr>textInput := (str ''draft''), selectedCriteria := [str ''Clarity''],
              reviewState :=
                \<lparr>isLoading = False, error = None,
                 feedback = JObject [(str ''summary'', JString (str ''ok'')), (str ''overallScore'', JNumber 50),
                                     (str ''reviews'', JArray [])]\<rparr>\<rparr>,
      [review_request (initial\<lparr>textInput := (str ''draft''), selectedCriteria := [str ''Clarity'']\<rparr>)])\<close>
  using parsed_response_accepted [OF example_state_ready,
      where api = \<open>always (Resolves (Some (str ''{"summary":"ok","overallScore":50,"reviews":[]}'')))\<close>
        and jsonText = \<open>(str ''{"summary":"ok","overallScore":50,"reviews":[]}'')\<close>
        and parse = JSON_parse]
  by (simp add: always_def parse_empty_reviews)

subsection \<open>The response schema\<close>

lemma validates_point:
  "validates
     (SObject
        [(str ''point'', SString None None), (str ''highlight'', SString None None),
         (str ''general_feedback'', SBoolean)]
        [str ''point''])
     (json_of_point p)"
  by (simp add: json_of_point_def split: option.splits)

lemma validates_score:
  "validates (SString (Some [str ''Excellent'', str ''Good'', str ''Fair'', str ''Poor'']) None)
     (JString (score_string sc))"
  by (cases sc) simp_all

lemma validates_result:
  "validates
     (SObject
        [(str ''criterion'', SString None None),
         (str ''score'', SString (Some [str ''Excellent'', str ''Good'', str ''Fair'', str ''Poor'']) None),
         (str ''visualBar'', SString None (Some visualBar_description)),
         (str ''feedbackPoints'',
          SArray
            (SObject
               [(str ''point'', SString None None), (str ''highlight'', SString None None),
                (str ''general_feedback'', SBoolean)]
               [str ''point''])
            None None)]
        [str ''criterion'', str ''score'', str ''visualBar'', str ''feedbackPoints''])
     (json_of_result r)"
  using validates_point validates_score [of "cr_score r"]
  by (simp add: json_of_result_def list_all_iff)

lemma points_of_result:
  "(case json_of_result r of
      JObject gs \<Rightarrow>
        (case map_of gs (str ''feedbackPoints'') of Some (JArray ps) \<Rightarrow> length ps | _ \<Rightarrow> 0)
    | _ \<Rightarrow> 0) = length (cr_feedbackPoints r)"
  by (simp add: json_of_result_def)

text \<open>
  C2, as stated, fails. A response whose one criterion has two feedback points fits the
  schema, and so does one with four.
\<close>

theorem two_or_four_points_accepted:
  "validates responseSchema (json_of_feedback (synthetic_response 2)) \<and>
   points_per_review (json_of_feedback (synthetic_response 2)) = [2] \<and>
   validates responseSchema (json_of_feedback (synthetic_response 4)) \<and>
   points_per_review (json_of_feedback (synthetic_response 4)) = [4]"
  using validates_result
  by (simp add: responseSchema_def json_of_feedback_def synthetic_response_def
      points_per_review_def points_of_result is_integer_def)

lemma instruction_text7_parts:
  \<open>instruction_text7 =
     (str
       (''.\<newline>'' @
        ''     - "score": "Excellent", "Good", "Fair", or "Poor".\<newline>'' @
        ''     - "visualBar": 5-char string "'') @
      [0x25A0] @
      str ''" and "'' @
      [0x25A1] @
      str ''" (e.g. "'' @
      [0x25A0, 0x25A0, 0x25A0, 0x25A1, 0x25A1] @
      str
       (''").\<newline>'' @
        ''     '')) @
     str ''- "feedbackPoints": Exactly 3 distinct points per criterion.'' @
     str
      (''\<newline>'' @
       ''        - "point": The critique text. MUST include the citation tag '' @
       ''[Page X] if referring to specific errors.\<newline>'' @
       ''        - "highlight": The specific text snippet from the document '' @
       ''that justifies the critique (for the Evidence Mandate).\<newline>'' @
       ''        - "general_feedback": true if no specific snippet exists (but '' @
       ''still cite section in "point").\<newline>'' @
       ''  '')\<close>
  by (simp add: instruction_text7_def str_def)

lemma instruction_states_count:
  \<open>includes_str (systemInstruction cat level selected custom)
     (str ''- "feedbackPoints": Exactly 3 distinct points per criterion.'')\<close>
proof -
  obtain p q where
    \<open>instruction_text7 =
       p @ str ''- "feedbackPoints": Exactly 3 distinct points per criterion.'' @ q\<close>
    using instruction_text7_parts by blast
  then have
    \<open>systemInstruction cat level selected custom =
       (instruction_text1 @ category_string cat @
        instruction_text2 @ level_string level @
        instruction_text3 @ stringify_names (allCriteriaNames selected custom) @
        instruction_text4 @
        (if formattedCustomCriteria custom \<noteq> []
         then str ''Custom Rubric Items:\<newline>'' @ formattedCustomCriteria custom
         else []) @
        instruction_text5 @ personaInstruction cat level @
        instruction_text6 @ join (str '', '') (allCriteriaNames selected custom) @ p) @
       str ''- "feedbackPoints": Exactly 3 distinct points per criterion.'' @ q\<close>
    by (simp add: systemInstruction_def)
  then show ?thesis
    unfolding includes_str_iff by blast
qed

text \<open>
  C2, amended. The schema is the same for every configuration and puts no bound on the
  number of feedback points: \<open>feedbackPoints\<close> is an array with \<open>items\<close> only. Every
  typed response fits it, whatever the number of feedback points of each criterion, so a
  response with three per criterion is accepted and so is one with two or four. That
  there are to be exactly three is said in the text of the instruction only: the
  instruction of every request has the line
  \<open>- "feedbackPoints": Exactly 3 distinct points per criterion.\<close>
\<close>

theorem schema_leaves_count_open:
  \<open>validates responseSchema (json_of_feedback fb) \<and>
   points_per_review (json_of_feedback fb) = map (\<lambda>r. length (cr_feedbackPoints r)) (rf_reviews fb) \<and>
   rq_responseSchema (make_request cat level selected custom parts) = responseSchema \<and>
   rq_systemInstruction (make_request cat level selected custom parts) =
     systemInstruction cat level selected custom \<and>
   includes_str (systemInstruction cat level selected custom)
     (str ''- "feedbackPoints": Exactly 3 distinct points per criterion.'')\<close>
  using validates_result instruction_states_count [of cat level selected custom]
  by (simp add: responseSchema_def json_of_feedback_def points_per_review_def
      points_of_result is_integer_def list_all_iff make_request_def comp_def)

subsection \<open>The list of criteria in the instruction\<close>

lemma instruction_text3_end:
  "instruction_text3 = ([0x22] @ (str ''\<newline>  3. '')) @ (str ''Selected_Rubric: '')"
  by (simp add: instruction_text3_def str_def ch_def)

lemma instruction_text6_end:
  "instruction_text6 =
     take (length instruction_text6 - 20) instruction_text6 @ (str ''Array for criteria: '')"
  by (simp add: instruction_text6_def str_def)

lemma instruction_embeds_names:
  "(\<exists>p q. systemInstruction cat level selected custom =
       p @ (str ''Selected_Rubric: '') @ stringify_names (allCriteriaNames selected custom) @ q) \<and>
   (\<exists>p q. systemInstruction cat level selected custom =
       p @ (str ''Array for criteria: '') @ join (str '', '') (allCriteriaNames selected custom) @ q)"
proof -
  define p3 where "p3 = [0x22] @ (str ''\<newline>  3. '')"
  define p6 where "p6 = take (length instruction_text6 - 20) instruction_text6"
  define mid where "mid =
     instruction_text4 @
     (if formattedCustomCriteria custom \<noteq> []
      then (str ''Custom Rubric Items:\<newline>'') @ formattedCustomCriteria custom
      else []) @
     instruction_text5 @ personaInstruction cat level"
  define names where "names = allCriteriaNames selected custom"
  define start where "start =
     instruction_text1 @ category_string cat @ instruction_text2 @ level_string level"
  have t3: "instruction_text3 = p3 @ (str ''Selected_Rubric: '')"
    unfolding p3_def by (rule instruction_text3_end)
  have t6: "instruction_text6 = p6 @ (str ''Array for criteria: '')"
    unfolding p6_def by (rule instruction_text6_end)
  have whole: "systemInstruction cat level selected custom =
      start @ instruction_text3 @ stringify_names names @ mid @
      instruction_text6 @ join (str '', '') names @ instruction_text7"
    by (simp add: systemInstruction_def start_def mid_def names_def)
  have "systemInstruction cat level selected custom =
      (start @ p3) @ (str ''Selected_Rubric: '') @ stringify_names names @
      (mid @ instruction_text6 @ join (str '', '') names @ instruction_text7)"
    unfolding whole t3 by simp
  moreover have "systemInstruction cat level selected custom =
      (start @ instruction_text3 @ stringify_names names @ mid @ p6) @
      (str ''Array for criteria: '') @ join (str '', '') names @ instruction_text7"
    unfolding whole t6 by simp
  ultimately show ?thesis
    unfolding names_def by blast
qed

text \<open>
  C3, as stated, fails. After \<open>Originality\<close> and then \<open>Clarity\<close> are switched on, the
  list of names that goes into the instruction starts with \<open>Originality\<close>; the catalogue
  has \<open>Clarity\<close> first.
\<close>

theorem names_in_toggle_order:
  "selectedCriteria (toggleCriterion (str ''Clarity'') (toggleCriterion (str ''Originality'') initial)) =
     [str ''Originality'', str ''Clarity''] \<and>
   allCriteriaNames
     (selectedCriteria (toggleCriterion (str ''Clarity'') (toggleCriterion (str ''Originality'') initial)))
     (customCriteria (toggleCriterion (str ''Clarity'') (toggleCriterion (str ''Originality'') initial))) =
     [str ''Originality'', str ''Clarity''] \<and>
   catalog_order
     (selectedCriteria (toggleCriterion (str ''Clarity'') (toggleCriterion (str ''Originality'') initial))) @
   map c_name (filter nonblank
     (customCriteria (toggleCriterion (str ''Clarity'') (toggleCriterion (str ''Originality'') initial)))) =
     [str ''Clarity'', str ''Originality'']"
  by (simp add: toggleCriterion_def initial_def allCriteriaNames_def catalog_order_def
      AVAILABLE_CRITERIA_def blank_criteria_def nonblank_def trim_def)

text \<open>
  C3, amended. The list of criteria names embedded in the instruction is the selected
  built-in criteria in the order in which the selection holds them, followed by the names
  of the custom criteria whose name is not blank, in entry order. The selection holds
  the criteria in the order in which they were switched on: a toggle appends a criterion
  that is not selected and removes one that is, and select-all puts the whole catalogue,
  in its order. In every state of a session the selection has the same members as the
  list in catalogue order, each once.
\<close>

theorem names_in_selection_order:
  "allCriteriaNames selected custom =
     selected @ map c_name (filter (\<lambda>c. trim (c_name c) \<noteq> []) custom) \<and>
   rq_systemInstruction (review_request s) =
     systemInstruction (category s) (critiqueLevel s) (selectedCriteria s)
       (filter nonblank (customCriteria s)) \<and>
   allCriteriaNames (selectedCriteria s) (filter nonblank (customCriteria s)) =
     allCriteriaNames (selectedCriteria s) (customCriteria s) \<and>
   (\<exists>p q. systemInstruction cat level selected custom =
       p @ (str ''Selected_Rubric: '') @ stringify_names (allCriteriaNames selected custom) @ q) \<and>
   (\<exists>p q. systemInstruction cat level selected custom =
       p @ (str ''Array for criteria: '') @ join (str '', '') (allCriteriaNames selected custom) @ q) \<and>
   selectedCriteria (toggleCriterion c s) =
     (if c \<in> set (selectedCriteria s) then filter (\<lambda>x. x \<noteq> c) (selectedCriteria s)
      else selectedCriteria s @ [c]) \<and>
   selectedCriteria (toggleSelectAll s) = (if allSelected s then [] else AVAILABLE_CRITERIA) \<and>
   (reachable s \<longrightarrow>
      distinct (selectedCriteria s) \<and>
      set (selectedCriteria s) = set (catalog_order (selectedCriteria s)))"
proof -
  have "reachable s \<longrightarrow>
      distinct (selectedCriteria s) \<and>
      set (selectedCriteria s) = set (catalog_order (selectedCriteria s))"
    using reachable_invariant [of s] by (auto simp: catalog_order_def)
  moreover have "allCriteriaNames selected custom =
      selected @ map c_name (filter (\<lambda>c. trim (c_name c) \<noteq> []) custom)"
    by (simp add: allCriteriaNames_def nonblank_def [abs_def])
  moreover have "rq_systemInstruction (review_request s) =
      systemInstruction (category s) (critiqueLevel s) (selectedCriteria s)
        (filter nonblank (customCriteria s))"
    by (simp add: review_request_def make_request_def)
  moreover have "allCriteriaNames (selectedCriteria s) (filter nonblank (customCriteria s)) =
      allCriteriaNames (selectedCriteria s) (customCriteria s)"
    by (simp add: allCriteriaNames_def)
  moreover have "selectedCriteria (toggleCriterion c s) =
     (if c \<in> set (selectedCriteria s) then filter (\<lambda>x. x \<noteq> c) (selectedCriteria s)
      else selectedCriteria s @ [c])"
    by (simp add: toggleCriterion_def)
  moreover have "selectedCriteria (toggleSelectAll s) =
      (if allSelected s then [] else AVAILABLE_CRITERIA)"
    by (simp add: toggleSelectAll_def)
  ultimately show ?thesis
    using instruction_embeds_names [of cat level selected custom] by blast
qed

lemma blank_or_not:
  "trim [0x00A0] = []" "trim (str ''Rigor'') \<noteq> []"
  by code_simp+

theorem names_in_selection_order_witness:
  "reachable (toggleCriterion (str ''Originality'') initial) \<and>
   distinct (selectedCriteria (toggleCriterion (str ''Originality'') initial)) \<and>
   set (selectedCriteria (toggleCriterion (str ''Originality'') initial)) =
     set (catalog_order (selectedCriteria (toggleCriterion (str ''Originality'') initial))) \<and>
   selectedCriteria (toggleCriterion (str ''Clarity'') (toggleCriterion (str ''Originality'') initial)) =
     selectedCriteria (toggleCriterion (str ''Originality'') initial) @ [str ''Clarity''] \<and>
   allCriteriaNames [str ''Originality'']
     [\<lparr>c_id = str ''1'', c_name = [0x00A0], c_keywords = []\<rparr>,
      \<lparr>c_id = str ''2'', c_name = str ''Rigor'', c_keywords = []\<rparr>] =
     [str ''Originality'', str ''Rigor'']"
proof -
  have r: "reachable (toggleCriterion (str ''Originality'') initial)"
    by (rule r_toggleCriterion [OF r_initial]) (simp add: AVAILABLE_CRITERIA_def)
  have n: "(str ''Clarity'') \<notin> set (selectedCriteria (toggleCriterion (str ''Originality'') initial))"
    by (simp add: toggleCriterion_def initial_def)
  show ?thesis
    using r n
      names_in_selection_order
        [of "[str ''Originality'']"
          "[\<lparr>c_id = str ''1'', c_name = [0x00A0], c_keywords = []\<rparr>,
            \<lparr>c_id = str ''2'', c_name = str ''Rigor'', c_keywords = []\<rparr>]"
          "toggleCriterion (str ''Originality'') initial"
          UNDERGRADUATE Standard "str ''Clarity''"]
    by (simp add: blank_or_not)
qed

end
